theory Spec2Isabelle
  imports Main
begin

section \<open>Strings\<close>

text \<open>
  JavaScript strings are modelled as \<open>string\<close>.  The only characters the compiler
  inspects are ASCII ones (newline, double quote), so working on bytes or on UTF-16
  code units makes no difference to the functions below.
\<close>

definition newline :: char where
  "newline = CHR 0x0A"

definition dquote :: char where
  "dquote = CHR 0x22"

definition backslash :: char where
  "backslash = CHR 0x5C"

text \<open>\<open>input.replace(/c/gm, r)\<close> for a one-character pattern \<open>c\<close>: every occurrence
  of \<open>c\<close> is replaced by the string \<open>r\<close>, left to right.\<close>

definition replace_all :: "char \<Rightarrow> string \<Rightarrow> string \<Rightarrow> string" where
  "replace_all c r input = concat (map (\<lambda>x. if x = c then r else [x]) input)"

section \<open>ParserManager.cleanChunk\<close>

text \<open>
  \<^verbatim>\<open>
  cleanChunk(input) {
      let text =  input.replace(/\n/gm,'\\n');
      text = text.replace(/"/gm, '\\"');
      return `"${text}"`;
  }
  \<close>
  The JavaScript literal \<open>'\\n'\<close> is the two characters backslash, \<open>n\<close>; the literal
  \<open>'\\"'\<close> is backslash, double quote.
\<close>

definition cleanChunk :: "string \<Rightarrow> string" where
  "cleanChunk input =
     (let text = replace_all newline [backslash, CHR ''n''] input;
          text' = replace_all dquote [backslash, dquote] text
      in [dquote] @ text' @ [dquote])"

section \<open>Errors and JavaScript values\<close>

text \<open>
  The location object built by \<open>_throwTemplateExceptionForElement\<close>:
  \<open>{ start: { line, column }, end: { line, endColumn } }\<close>.
\<close>

record fileLocation =
  start_line :: int
  start_column :: int
  end_line :: int
  end_endColumn :: int

text \<open>
  Every \<open>throw\<close> of the source is a value: \<open>Error m\<close> is \<open>new Error(m)\<close>,
  \<open>TypeError\<close> is the engine's error on reading a property of \<open>null\<close> or
  \<open>undefined\<close>, and \<open>TemplateException message fileLocation fileName component\<close> is
  \<open>new TemplateException(message, fileLocation, fileName, null, component)\<close>.
\<close>

datatype error =
    Error string
  | TypeError
  | TemplateException string fileLocation string string

datatype json =
    JNull
  | JUndefined
  | JBool bool
  | JNum int
  | JStr string
  | JArr "json list"
  | JObj "(string \<times> json) list"

text \<open>JavaScript truthiness, as tested by \<open>if (v)\<close> and \<open>!v\<close>.\<close>

fun truthy :: "json \<Rightarrow> bool" where
  "truthy JNull = False"
| "truthy JUndefined = False"
| "truthy (JBool b) = b"
| "truthy (JNum n) = (n \<noteq> 0)"
| "truthy (JStr s) = (s \<noteq> [])"
| "truthy (JArr _) = True"
| "truthy (JObj _) = True"

text \<open>\<open>v[key]\<close> for a string key that is not a built-in property: reading a property of
  \<open>null\<close> or \<open>undefined\<close> throws, a missing property is \<open>undefined\<close>.\<close>

fun get_prop :: "json \<Rightarrow> string \<Rightarrow> error + json" where
  "get_prop JNull k = Inl TypeError"
| "get_prop JUndefined k = Inl TypeError"
| "get_prop (JObj kvs) k = (case map_of kvs k of None \<Rightarrow> Inr JUndefined | Some v \<Rightarrow> Inr v)"
| "get_prop _ k = Inr JUndefined"

section \<open>TemplateInstance\<close>

text \<open>
  The collaborators of a template instance live outside the class: the owning template
  (its identifier, its template model, its metadata and serializer), the markup
  transformers, \<open>JSON.stringify\<close> and the SHA-256 digest of \<open>crypto\<close>.  They are
  parameters of the model; every call that can throw returns a sum.  \<open>'r\<close> is the type of
  Concerto resources, \<open>'cm\<close> of CiceroMark documents, \<open>'sl\<close> of Slate documents.
\<close>

record ('r, 'cm, 'sl) externals =
  template_getIdentifier :: string
  templateModel_getFullyQualifiedName :: string
  metadata_getTemplateType :: int
  serializer_fromJSON :: "json \<Rightarrow> error + 'r"
  resource_validate :: "'r \<Rightarrow> error + unit"
  draftCiceroMark :: "json option \<Rightarrow> string \<Rightarrow> error + 'cm"
  unquote :: "'cm \<Rightarrow> error + 'cm"
  toCiceroMarkUnwrapped :: "'cm \<Rightarrow> error + 'cm"
  toMarkdownCicero :: "'cm \<Rightarrow> error + string"
  toHtml :: "'cm \<Rightarrow> error + string"
  fromCiceroMark :: "'cm \<Rightarrow> error + 'sl"
  JSON_stringify :: "json \<Rightarrow> string"
  sha256_hex :: "string \<Rightarrow> string"

record 'r TemplateInstance =
  data :: "json option"
  concertoData :: "'r option"

text \<open>The constructor: \<open>this.data = null; this.concertoData = null;\<close>\<close>

definition constructor :: "'r TemplateInstance" where
  "constructor = \<lparr> data = None, concertoData = None \<rparr>"

text \<open>
  \<^verbatim>\<open>
  setData(data) {
      const templateModel = this.getTemplate().getTemplateModel();
      if (data.$class !== templateModel.getFullyQualifiedName()) {
          throw new Error(`Invalid data, must be a valid instance of the template model
             ${templateModel.getFullyQualifiedName()} but got: ${JSON.stringify(data)} `);
      }
      const resource = this.getTemplate().getSerializer().fromJSON(data);
      resource.validate();
      this.data = data;
      this.concertoData = resource;
  }
  \<close>
\<close>

definition setData ::
  "('r, 'cm, 'sl) externals \<Rightarrow> 'r TemplateInstance \<Rightarrow> json \<Rightarrow> error + 'r TemplateInstance" where
  "setData ext this d =
     (case get_prop d ''$class'' of
        Inl e \<Rightarrow> Inl e
      | Inr c \<Rightarrow>
          if c \<noteq> JStr (templateModel_getFullyQualifiedName ext)
          then Inl (Error (''Invalid data, must be a valid instance of the template model ''
                 @ templateModel_getFullyQualifiedName ext @ '' but got: ''
                 @ JSON_stringify ext d @ '' ''))
          else (case serializer_fromJSON ext d of
                  Inl e \<Rightarrow> Inl e
                | Inr resource \<Rightarrow>
                    (case resource_validate ext resource of
                       Inl e \<Rightarrow> Inl e
                     | Inr _ \<Rightarrow> Inr (this\<lparr> data := Some d, concertoData := Some resource \<rparr>))))"

text \<open>The \<open>options\<close> argument of \<open>draft\<close>; the argument itself may be missing.\<close>

record options =
  format :: "string option"
  unquoteVariables :: bool

text \<open>What \<open>formatCiceroMark\<close> returns, tagged by the branch that produced it.\<close>

datatype ('cm, 'sl) rendered =
    Markdown string
  | CiceroMarkParsed 'cm
  | Html string
  | Slate 'sl

text \<open>\<open>if (options && options.unquoteVariables) ciceroMarkParsed = unquote(ciceroMarkParsed)\<close>\<close>

definition unquoteIfAsked ::
  "('r, 'cm, 'sl) externals \<Rightarrow> options option \<Rightarrow> 'cm \<Rightarrow> error + 'cm" where
  "unquoteIfAsked ext opts cm =
     (case opts of
        None \<Rightarrow> Inr cm
      | Some o' \<Rightarrow> if unquoteVariables o' then unquote ext cm else Inr cm)"

text \<open>
  \<^verbatim>\<open>
  formatCiceroMark(ciceroMarkParsed,options) {
      const format = options ? options.format : null;
      if (!format) {
          if (options && options.unquoteVariables) { ... unquote ... }
          const ciceroMark = this.ciceroMarkTransformer.toCiceroMarkUnwrapped(ciceroMarkParsed);
          return this.ciceroMarkTransformer.toMarkdownCicero(ciceroMark);
      } else if (format === 'ciceromark_parsed'){
          return ciceroMarkParsed;
      } else if (format === 'html'){
          if (options && options.unquoteVariables) { ... unquote ... }
          return htmlTransformer.toHtml(ciceroMarkParsed);
      } else if (format === 'slate'){
          if (options && options.unquoteVariables) { ... unquote ... }
          return slateTransformer.fromCiceroMark(ciceroMarkParsed);
      } else {
          throw new Error('Unsupported format: ' + format);
      }
  }
  \<close>
  \<open>!format\<close> holds when the format is missing and when it is the empty string.
\<close>

definition formatCiceroMark ::
  "('r, 'cm, 'sl) externals \<Rightarrow> 'cm \<Rightarrow> options option \<Rightarrow> error + ('cm, 'sl) rendered" where
  "formatCiceroMark ext ciceroMarkParsed opts =
     (let fmt = (case opts of None \<Rightarrow> None | Some o' \<Rightarrow> format o') in
      if (case fmt of None \<Rightarrow> True | Some f \<Rightarrow> f = []) then
        (case unquoteIfAsked ext opts ciceroMarkParsed of
           Inl e \<Rightarrow> Inl e
         | Inr cm \<Rightarrow>
             (case toCiceroMarkUnwrapped ext cm of
                Inl e \<Rightarrow> Inl e
              | Inr ciceroMark \<Rightarrow>
                  (case toMarkdownCicero ext ciceroMark of
                     Inl e \<Rightarrow> Inl e
                   | Inr text \<Rightarrow> Inr (Markdown text))))
      else if fmt = Some ''ciceromark_parsed'' then Inr (CiceroMarkParsed ciceroMarkParsed)
      else if fmt = Some ''html'' then
        (case unquoteIfAsked ext opts ciceroMarkParsed of
           Inl e \<Rightarrow> Inl e
         | Inr cm \<Rightarrow>
             (case toHtml ext cm of Inl e \<Rightarrow> Inl e | Inr h \<Rightarrow> Inr (Html h)))
      else if fmt = Some ''slate'' then
        (case unquoteIfAsked ext opts ciceroMarkParsed of
           Inl e \<Rightarrow> Inl e
         | Inr cm \<Rightarrow>
             (case fromCiceroMark ext cm of Inl e \<Rightarrow> Inl e | Inr s \<Rightarrow> Inr (Slate s)))
      else Inl (Error (''Unsupported format: '' @ the fmt)))"

text \<open>
  \<^verbatim>\<open>
  async draft(options,currentTime) {
      if(!this.concertoData) {
          throw new Error('Data has not been set. Call setData or parse before calling this method.');
      }
      const metadata = this.getTemplate().getMetadata();
      const parserManager = this.getTemplate().getParserManager();
      const templateKind = metadata.getTemplateType() !== 0 ? 'clause' : 'contract';
      const data = this.getData();
      const ciceroMark = this.templateMarkTransformer.draftCiceroMark(data, parserManager, templateKind, {});
      return this.formatCiceroMark(ciceroMark,options);
  }
  \<close>
  A resource is an object, hence truthy: \<open>!this.concertoData\<close> holds exactly when the
  field is still \<open>null\<close>.  A rejected promise is an \<open>Inl\<close>.
\<close>

definition draft ::
  "('r, 'cm, 'sl) externals \<Rightarrow> 'r TemplateInstance \<Rightarrow> options option
     \<Rightarrow> error + ('cm, 'sl) rendered" where
  "draft ext this opts =
     (if concertoData this = None
      then Inl (Error ''Data has not been set. Call setData or parse before calling this method.'')
      else
        (let templateKind = (if metadata_getTemplateType ext \<noteq> 0 then ''clause'' else ''contract'')
         in case draftCiceroMark ext (data this) templateKind of
              Inl e \<Rightarrow> Inl e
            | Inr ciceroMark \<Rightarrow> formatCiceroMark ext ciceroMark opts))"

text \<open>
  \<^verbatim>\<open>
  getIdentifier() {
      let hash = '';
      if (this.data) {
          const textToHash = JSON.stringify(this.getData());
          const hasher = crypto.createHash('sha256');
          hasher.update(textToHash);
          hash = '-' + hasher.digest('hex');
      }
      return this.getTemplate().getIdentifier() + hash;
  }
  \<close>
\<close>

definition getIdentifier :: "('r, 'cm, 'sl) externals \<Rightarrow> 'r TemplateInstance \<Rightarrow> string" where
  "getIdentifier ext this =
     (let hash =
        (case data this of
           None \<Rightarrow> []
         | Some d \<Rightarrow>
             if truthy d then ''-'' @ sha256_hex ext (JSON_stringify ext d) else [])
      in template_getIdentifier ext @ hash)"

section \<open>The annotated-template AST\<close>

text \<open>
  A token of the template lexer: its text with its source position
  (\<open>fieldName.value\<close>, \<open>fieldName.line\<close>, \<open>fieldName.col\<close>).
\<close>

record token =
  tvalue :: string
  line :: int
  col :: int

text \<open>
  An element of \<open>ast.data\<close>, one constructor per value of \<open>element.type\<close> that the
  compiler knows, with the fields the compiler reads from it:
  \<open>value\<close> for chunks; \<open>fieldName\<close> for every binding; \<open>format\<close> (possibly missing),
  \<open>stringIf\<close>, \<open>stringElse\<close>, \<open>separator\<close> and the nested \<open>template\<close> where the
  binding has them.  \<open>Unrecognized t fieldName value\<close> stands for an element of any other
  type \<open>t\<close>.  An entry of \<open>ast.data\<close> may be \<open>null\<close> (a missing optional last chunk),
  so the data of a template is a list of optional elements.
\<close>

datatype element =
    Chunk string
  | LastChunk string
  | Binding token "token option"
  | FormattedBinding token "token option"
  | IfBinding token token
  | IfElseBinding token token token
  | ClauseBinding token "element option list"
  | WithBinding token "element option list"
  | UListBinding token "element option list"
  | OListBinding token "element option list"
  | JoinBinding token string "element option list"
  | Expr
  | Unrecognized string "token option" "string option"

type_synonym ast = "element option list"

text \<open>\<open>element.type\<close>\<close>

fun etype :: "element \<Rightarrow> string" where
  "etype (Chunk v) = ''Chunk''"
| "etype (LastChunk v) = ''LastChunk''"
| "etype (Binding fn fmt) = ''Binding''"
| "etype (FormattedBinding fn fmt) = ''FormattedBinding''"
| "etype (IfBinding fn sIf) = ''IfBinding''"
| "etype (IfElseBinding fn sIf sElse) = ''IfElseBinding''"
| "etype (ClauseBinding fn t) = ''ClauseBinding''"
| "etype (WithBinding fn t) = ''WithBinding''"
| "etype (UListBinding fn t) = ''UListBinding''"
| "etype (OListBinding fn t) = ''OListBinding''"
| "etype (JoinBinding fn sep t) = ''JoinBinding''"
| "etype Expr = ''Expr''"
| "etype (Unrecognized t fn v) = t"

text \<open>\<open>element.fieldName\<close>, \<open>undefined\<close> (here \<open>None\<close>) on an element without it.\<close>

fun fieldName :: "element \<Rightarrow> token option" where
  "fieldName (Binding fn fmt) = Some fn"
| "fieldName (FormattedBinding fn fmt) = Some fn"
| "fieldName (IfBinding fn sIf) = Some fn"
| "fieldName (IfElseBinding fn sIf sElse) = Some fn"
| "fieldName (ClauseBinding fn t) = Some fn"
| "fieldName (WithBinding fn t) = Some fn"
| "fieldName (UListBinding fn t) = Some fn"
| "fieldName (OListBinding fn t) = Some fn"
| "fieldName (JoinBinding fn sep t) = Some fn"
| "fieldName (Unrecognized t fn v) = fn"
| "fieldName _ = None"

text \<open>\<open>element.value\<close>\<close>

fun evalue :: "element \<Rightarrow> string option" where
  "evalue (Chunk v) = Some v"
| "evalue (LastChunk v) = Some v"
| "evalue (Unrecognized t fn v) = v"
| "evalue _ = None"

text \<open>\<open>element.format\<close>\<close>

fun eformat :: "element \<Rightarrow> token option" where
  "eformat (Binding fn fmt) = fmt"
| "eformat (FormattedBinding fn fmt) = fmt"
| "eformat _ = None"

text \<open>\<open>element.template\<close> (the \<open>data\<close> of the nested template)\<close>

fun template :: "element \<Rightarrow> ast option" where
  "template (ClauseBinding fn t) = Some t"
| "template (WithBinding fn t) = Some t"
| "template (UListBinding fn t) = Some t"
| "template (OListBinding fn t) = Some t"
| "template (JoinBinding fn sep t) = Some t"
| "template _ = None"

text \<open>\<open>element.separator\<close>\<close>

fun separator :: "element \<Rightarrow> string option" where
  "separator (JoinBinding fn sep t) = Some sep"
| "separator _ = None"

text \<open>
  The nested template of a binding is an object shared with the AST, and
  \<open>adjustListBlock\<close> writes into it.  \<open>setTemplate element t\<close> is the element once its
  nested template has become \<open>t\<close>.
\<close>

fun setTemplate :: "element \<Rightarrow> ast \<Rightarrow> element" where
  "setTemplate (ClauseBinding fn t) t' = ClauseBinding fn t'"
| "setTemplate (WithBinding fn t) t' = WithBinding fn t'"
| "setTemplate (UListBinding fn t) t' = UListBinding fn t'"
| "setTemplate (OListBinding fn t) t' = OListBinding fn t'"
| "setTemplate (JoinBinding fn sep t) t' = JoinBinding fn sep t'"
| "setTemplate e t' = e"

section \<open>The template model\<close>

text \<open>
  The schema is a collaborator (Concerto).  A property is given by what its methods
  return: \<open>getName()\<close>, \<open>getType()\<close>, \<open>getFullyQualifiedTypeName()\<close>, \<open>isArray()\<close>,
  \<open>isOptional()\<close>, and whether it is an instance of \<open>RelationshipDeclaration\<close>.  A class
  declaration is given by \<open>getFullyQualifiedName()\<close>, \<open>getIdentifierFieldName()\<close>
  (possibly \<open>null\<close>) and \<open>getProperties()\<close>.
\<close>

record property =
  getName :: string
  getType :: string
  getFullyQualifiedTypeName :: string
  isArray :: bool
  isOptional :: bool
  isRelationshipDeclaration :: bool

record classDeclaration =
  getFullyQualifiedName :: string
  getIdentifierFieldName :: "string option"
  getProperties :: "property list"

text \<open>\<open>templateModel.getProperty(name)\<close>: the declared property of that name, if any.\<close>

definition classDeclaration_getProperty :: "classDeclaration \<Rightarrow> string \<Rightarrow> property option" where
  "classDeclaration_getProperty templateModel name =
     find (\<lambda>p. getName p = name) (getProperties templateModel)"

section \<open>Grammar rules\<close>

text \<open>
  The container rule of one nesting level (an entry of \<open>parts.textRules\<close>) and a rule
  of a node or of a format (an entry of \<open>parts.modelRules\<close>).
\<close>

record textRule =
  tr_prefix :: string
  tr_symbols :: "string list"
  tr_class :: string
  tr_identifier :: "string option"
  tr_properties :: "string list"

record modelRule =
  mr_prefix :: string
  mr_symbols :: "string list"

record parts =
  textRules :: "textRule list"
  modelRules :: "modelRule list"
  grammars :: "(string \<times> string) list"

text \<open>\<open>parts.modelRules.push(rule)\<close> and \<open>parts.textRules.push(rule)\<close>\<close>

definition push_modelRule :: "parts \<Rightarrow> modelRule \<Rightarrow> parts" where
  "push_modelRule p r = p\<lparr> modelRules := modelRules p @ [r] \<rparr>"

definition push_textRule :: "parts \<Rightarrow> textRule \<Rightarrow> parts" where
  "push_textRule p r = p\<lparr> textRules := textRules p @ [r] \<rparr>"

section \<open>Collaborators of the ParserManager\<close>

datatype formatParser = DateTimeFormatParser | AmountFormatParser | MonetaryAmountFormatParser

text \<open>A rule returned by \<open>formatParser.buildFormatRules(format)\<close>.\<close>

record formatRule =
  fr_name :: string
  fr_tokens :: string
  fr_action :: string

text \<open>The object \<open>module.exports\<close> that evaluating a compiled grammar leaves behind,
  named by the grammar source it was compiled from.\<close>

datatype compiledGrammar = CompiledGrammar string

text \<open>
  What the ParserManager calls and does not define:
  \<^item> \<open>getTemplateModel\<close>: \<open>this.template.getTemplateModel()\<close>;
  \<^item> \<open>getClassDeclaration\<close>: \<open>this.template.getIntrospector().getClassDeclaration(name)\<close>,
    which throws when there is no such class;
  \<^item> \<open>addGrammars\<close>, \<open>buildFormatRules\<close>: the methods of the three format parsers;
  \<^item> \<open>uuid_v4\<close>: \<open>uuid.v4()\<close>.  It is random; the model takes the value from a
    supply indexed by the number of container rules emitted so far (every call of
    \<open>buildGrammarRules\<close> emits its container rule right after drawing the value, so no
    two calls read the same index);
  \<^item> \<open>roundtripMarkdown\<close>: \<open>this.roundtripMarkdown\<close>, which the class calls and does
    not define;
  \<^item> \<open>parseTemplate\<close>: feeding the text to a \<open>nearley.Parser\<close> for the template
    grammar \<open>tdl.js\<close> and reading \<open>parser.results\<close> (\<open>feed\<close> may throw);
  \<^item> \<open>baseGrammar\<close>: \<open>require('./grammars/base')\<close>;
  \<^item> \<open>grammarVisitorRules\<close>: the rules the \<open>GrammarVisitor\<close> leaves in
    \<open>parameters.rules\<close> when the model manager accepts it;
  \<^item> \<open>render\<close>: \<open>nunjucks.render('template.ne', parts)\<close>;
  \<^item> \<open>nearleyCompile\<close>: parsing, compiling, generating and evaluating a grammar source
    with nearley, the body of the \<open>try\<close> block of \<open>compileGrammar\<close>.
\<close>

record collaborators =
  getTemplateModel :: "error + classDeclaration"
  getClassDeclaration :: "string \<Rightarrow> error + classDeclaration"
  addGrammars :: "formatParser \<Rightarrow> (string \<times> string) list \<Rightarrow> (string \<times> string) list"
  buildFormatRules :: "formatParser \<Rightarrow> string \<Rightarrow> error + formatRule list"
  uuid_v4 :: "nat \<Rightarrow> string"
  roundtripMarkdown :: "string \<Rightarrow> error + string"
  parseTemplate :: "string \<Rightarrow> error + ast list"
  baseGrammar :: string
  grammarVisitorRules :: "error + modelRule list"
  render :: "parts \<Rightarrow> error + string"
  nearleyCompile :: "string \<Rightarrow> error + compiledGrammar"

section \<open>ParserManager\<close>

text \<open>The fields of a ParserManager other than \<open>template\<close>, which is among the
  collaborators.\<close>

record ParserManager =
  grammar :: "string option"
  grammarAst :: "compiledGrammar option"
  templatizedGrammar :: "string option"
  templateAst :: "ast option"
  ergoExpression :: bool

text \<open>The constructor sets every field to \<open>null\<close> and the flag to \<open>false\<close>.\<close>

definition new_ParserManager :: ParserManager where
  "new_ParserManager =
     \<lparr> grammar = None, grammarAst = None, templatizedGrammar = None, templateAst = None,
       ergoExpression = False \<rparr>"

section \<open>Numbers in template literals\<close>

text \<open>\<open>`${n}`\<close> for an integer \<open>n\<close>: its decimal digits.\<close>

definition digit_char :: "nat \<Rightarrow> char" where
  "digit_char d = ''0123456789'' ! d"

text \<open>\<open>decimal n acc\<close> puts the digits of \<open>n\<close> in front of \<open>acc\<close>.\<close>

fun decimal :: "nat \<Rightarrow> string \<Rightarrow> string" where
  "decimal n acc =
     (if n < 10 then digit_char n # acc
      else decimal (n div 10) (digit_char (n mod 10) # acc))"

declare decimal.simps [simp del]

definition string_of_nat :: "nat \<Rightarrow> string" where
  "string_of_nat n = decimal n []"

definition string_of_int :: "int \<Rightarrow> string" where
  "string_of_int i =
     (if 0 \<le> i then string_of_nat (nat i) else CHR ''-'' # string_of_nat (nat (- i)))"

section \<open>ParserManager: the helpers of the compiler\<close>

text \<open>
  \<^verbatim>\<open>
  findFirstBinding(propertyName, elements) {
      for(let n=0; n < elements.length; n++) {
          const element = elements[n];
          if(element !== null && ['Binding','FormattedBinding','IfBinding','IfElseBinding',
              'UListBinding','OListBinding','JoinBinding','ClauseBinding','WithBinding']
              .includes(element.type)) {
              if(element.fieldName.value === propertyName) {
                  return n;
              }
          }
      }
      return -1;
  }
  \<close>
  \<open>bindsProperty propertyName element\<close> is the test of the loop body;
  \<open>findFirstBinding_from n\<close> is the loop from index \<open>n\<close> on, over the elements from
  that index on.
\<close>

definition bindsProperty :: "string \<Rightarrow> element option \<Rightarrow> bool" where
  "bindsProperty propertyName element =
     (case element of
        None \<Rightarrow> False
      | Some e \<Rightarrow>
          etype e \<in> set [''Binding'', ''FormattedBinding'', ''IfBinding'', ''IfElseBinding'',
                          ''UListBinding'', ''OListBinding'', ''JoinBinding'', ''ClauseBinding'',
                          ''WithBinding'']
          \<and> (case fieldName e of None \<Rightarrow> False | Some fn \<Rightarrow> tvalue fn = propertyName))"

fun findFirstBinding_from :: "nat \<Rightarrow> string \<Rightarrow> ast \<Rightarrow> int" where
  "findFirstBinding_from n propertyName [] = - 1"
| "findFirstBinding_from n propertyName (element # elements) =
     (if bindsProperty propertyName element then int n
      else findFirstBinding_from (Suc n) propertyName elements)"

definition findFirstBinding :: "string \<Rightarrow> ast \<Rightarrow> int" where
  "findFirstBinding propertyName elements = findFirstBinding_from 0 propertyName elements"

text \<open>
  \<^verbatim>\<open>
  static _throwTemplateExceptionForElement(message, element) {
      const fileName = 'text/grammar.tem.md';
      let column = element.fieldName.col;
      let line = element.fieldName.line;
      let token = element.value ? element.value : ' ';
      const endColumn = column + token.length;
      const fileLocation = {
          start: { line, column, },
          end: { line, endColumn, },
      };
      throw new TemplateException(message, fileLocation, fileName, null, 'cicero-core');
  }
  \<close>
  The function always throws; the model returns what it throws.
\<close>

definition throwTemplateExceptionForElement :: "string \<Rightarrow> element \<Rightarrow> error" where
  "throwTemplateExceptionForElement message element =
     (case fieldName element of
        None \<Rightarrow> TypeError
      | Some fn \<Rightarrow>
          (let fileName = ''text/grammar.tem.md'';
               column = col fn;
               line' = line fn;
               token = (case evalue element of
                          None \<Rightarrow> '' ''
                        | Some v \<Rightarrow> if v \<noteq> [] then v else '' '');
               endColumn = column + int (length token);
               fileLocation = \<lparr> start_line = line', start_column = column,
                                end_line = line', end_endColumn = endColumn \<rparr>
           in TemplateException message fileLocation fileName ''cicero-core''))"

text \<open>
  \<^verbatim>\<open>
  static getProperty(templateModel, element) {
      const propertyName = element.fieldName.value;
      const property = templateModel.getProperty(propertyName);
      if (!property) {
          ParserManager._throwTemplateExceptionForElement(`Template references a property
            '${propertyName}' that is not declared in the template model
            '${templateModel.getFullyQualifiedName()}'`, element);
      }
      return property;
  }
  \<close>
  (the message is one line in the source).
\<close>

definition getProperty :: "classDeclaration \<Rightarrow> element \<Rightarrow> error + property" where
  "getProperty templateModel element =
     (case fieldName element of
        None \<Rightarrow> Inl TypeError
      | Some fn \<Rightarrow>
          (let propertyName = tvalue fn in
           case classDeclaration_getProperty templateModel propertyName of
             None \<Rightarrow>
               Inl (throwTemplateExceptionForElement
                      (''Template references a property '' @ [CHR 0x27] @ propertyName
                       @ [CHR 0x27] @ '' that is not declared in the template model ''
                       @ [CHR 0x27] @ getFullyQualifiedName templateModel @ [CHR 0x27])
                      element)
           | Some property \<Rightarrow> Inr property))"

text \<open>
  \<^verbatim>\<open>
  static adjustListBlock(x,separator) {
      if (x.data[0] && x.data[0].type === 'Chunk') {
          x.data[0].value = separator + x.data[0].value;
          return x;
      } else {
          throw new Error('List block in template should contain text');
      }
  }
  \<close>
  The assignment changes the template in place; the model returns the changed template.
\<close>

fun adjustListBlock :: "ast \<Rightarrow> string \<Rightarrow> error + ast" where
  "adjustListBlock (Some (Chunk v) # rest) separator' = Inr (Some (Chunk (separator' @ v)) # rest)"
| "adjustListBlock x separator' = Inl (Error ''List block in template should contain text'')"

text \<open>
  The first loop of \<open>buildGrammarRules\<close> keeps an element when
  \<open>element && (element.type !== 'Chunk' || element.value.length > 0)\<close>.
\<close>

fun keptElement :: "element option \<Rightarrow> bool" where
  "keptElement None = False"
| "keptElement (Some (Chunk v)) = (length v > 0)"
| "keptElement (Some e) = True"

text \<open>\<open>textRules.symbols\<close>: the names \<open>prefix + index\<close> of the kept elements, in order.\<close>

fun symbols_from :: "nat \<Rightarrow> string \<Rightarrow> ast \<Rightarrow> string list" where
  "symbols_from index prefix [] = []"
| "symbols_from index prefix (element # elements) =
     (if keptElement element
      then (prefix @ string_of_nat index) # symbols_from (Suc index) prefix elements
      else symbols_from (Suc index) prefix elements)"

text \<open>
  \<^verbatim>\<open>
  textRules.properties = [];
  templateModel.getProperties().forEach((property, index) => {
      const sep = index < templateModel.getProperties().length - 1 ? ',' : '';
      const bindingIndex = this.findFirstBinding(property.getName(), ast.data);
      if (bindingIndex !== -1) { // ignore things like transactionId
          textRules.properties.push(`${property.getName()} : ${prefix}${bindingIndex}${sep}`);
      }
  });
  \<close>
  \<open>properties_from index\<close> is the loop from \<open>index\<close> on; \<open>len\<close> is
  \<open>templateModel.getProperties().length\<close>.
\<close>

fun properties_from :: "nat \<Rightarrow> nat \<Rightarrow> string \<Rightarrow> ast \<Rightarrow> property list \<Rightarrow> string list" where
  "properties_from index len prefix data' [] = []"
| "properties_from index len prefix data' (property # rest) =
     (let sep = (if int index < int len - 1 then '','' else '''');
          bindingIndex = findFirstBinding (getName property) data'
      in if bindingIndex \<noteq> - 1
         then (getName property @ '' : '' @ prefix @ string_of_int bindingIndex @ sep)
                # properties_from (Suc index) len prefix data' rest
         else properties_from (Suc index) len prefix data' rest)"

text \<open>
  The container rule of a level, as \<open>buildGrammarRules\<close> fills it in before pushing it:
  \<^verbatim>\<open>
  textRules.prefix = prefix;
  textRules.symbols = [ ... ];
  textRules.class = templateModel.getFullyQualifiedName();
  const identifier = templateModel.getIdentifierFieldName();
  if (identifier !== null) {
      textRules.identifier = `${identifier} : "${uuid.v4()}"`;
  }
  textRules.properties = [ ... ];
  \<close>
\<close>

definition containerRule ::
  "collaborators \<Rightarrow> ast \<Rightarrow> classDeclaration \<Rightarrow> string \<Rightarrow> parts \<Rightarrow> textRule" where
  "containerRule env ast' templateModel prefix parts' =
     \<lparr> tr_prefix = prefix,
       tr_symbols = symbols_from 0 prefix ast',
       tr_class = getFullyQualifiedName templateModel,
       tr_identifier =
         (case getIdentifierFieldName templateModel of
            None \<Rightarrow> None
          | Some identifier \<Rightarrow>
              Some (identifier @ '' : '' @ [dquote] @ uuid_v4 env (length (textRules parts'))
                    @ [dquote])),
       tr_properties =
         properties_from 0 (length (getProperties templateModel)) prefix ast'
           (getProperties templateModel) \<rparr>"

text \<open>
  The formatted branch of \<open>handleBinding\<close>:
  \<^verbatim>\<open>
  let formatParser;
  let format;
  if(property.getType() === 'DateTime') {
      formatParser = new DateTimeFormatParser();
      format = element.format ? element.format.value : '"MM/DD/YYYY"';
  } else if (property.getType() === 'Double') {
      formatParser = new AmountFormatParser();
      format = element.format.value;
  } else if (property.getType() === 'MonetaryAmount') {
      formatParser = new MonetaryAmountFormatParser();
      format = element.format.value;
  } else {
      ParserManager._throwTemplateExceptionForElement(`Formatted types are not currently
         supported for ${property.getType()} properties.`, element);
  }
  formatParser.addGrammars(parts.grammars);
  const formatRules = formatParser.buildFormatRules(format);
  formatRules.forEach((formatRule) => {
      type = formatRule.name;
      const ruleExists = parts.modelRules.some(rule => (rule.prefix === formatRule.name));
      if(!ruleExists) {
          parts.modelRules.push({
              prefix: formatRule.name,
              symbols: [`${formatRule.tokens} ${formatRule.action} # ${propertyName} as ${format}`],
          });
      }
  });
  \<close>
  \<open>chooseFormatParser\<close> is the \<open>if\<close> chain, \<open>addFormatRule\<close> the body of the
  \<open>forEach\<close>, acting on \<open>parts\<close> and on the variable \<open>type\<close>.
\<close>

definition chooseFormatParser :: "property \<Rightarrow> element \<Rightarrow> error + (formatParser \<times> string)" where
  "chooseFormatParser property element =
     (if getType property = ''DateTime'' then
        Inr (DateTimeFormatParser,
             (case eformat element of
                Some f \<Rightarrow> tvalue f
              | None \<Rightarrow> [dquote] @ ''MM/DD/YYYY'' @ [dquote]))
      else if getType property = ''Double'' then
        (case eformat element of
           None \<Rightarrow> Inl TypeError
         | Some f \<Rightarrow> Inr (AmountFormatParser, tvalue f))
      else if getType property = ''MonetaryAmount'' then
        (case eformat element of
           None \<Rightarrow> Inl TypeError
         | Some f \<Rightarrow> Inr (MonetaryAmountFormatParser, tvalue f))
      else
        Inl (throwTemplateExceptionForElement
               (''Formatted types are not currently supported for '' @ getType property
                @ '' properties.'') element))"

definition addFormatRule :: "string \<Rightarrow> string \<Rightarrow> formatRule \<Rightarrow> parts \<times> string \<Rightarrow> parts \<times> string" where
  "addFormatRule propertyName format' formatRule = (\<lambda>(parts', type').
     (let ruleExists = list_ex (\<lambda>rule. mr_prefix rule = fr_name formatRule) (modelRules parts')
      in (if \<not> ruleExists
          then push_modelRule parts'
                 \<lparr> mr_prefix = fr_name formatRule,
                   mr_symbols = [fr_tokens formatRule @ '' '' @ fr_action formatRule @ '' # ''
                                 @ propertyName @ '' as '' @ format'] \<rparr>
          else parts',
          fr_name formatRule)))"

definition formattedBinding ::
  "collaborators \<Rightarrow> parts \<Rightarrow> property \<Rightarrow> element \<Rightarrow> string \<Rightarrow> error + (parts \<times> string)" where
  "formattedBinding env parts' property element propertyName =
     (case chooseFormatParser property element of
        Inl e \<Rightarrow> Inl e
      | Inr (formatParser, format') \<Rightarrow>
          (let parts1 = parts'\<lparr> grammars := addGrammars env formatParser (grammars parts') \<rparr> in
           case buildFormatRules env formatParser format' of
             Inl e \<Rightarrow> Inl e
           | Inr formatRules \<Rightarrow>
               Inr (fold (addFormatRule propertyName format') formatRules
                      (parts1, getType property))))"

text \<open>
  The end of \<open>handleBinding\<close>:
  \<^verbatim>\<open>
  if (property.isArray()) { suffix += '*'; }
  if (property.isOptional()) { suffix += '?'; }
  if (suffix === ':') { suffix = ''; }
  if(element.type === 'UListBinding' || element.type === 'OListBinding' || element.type === 'JoinBinding') {
      parts.modelRules.push({
          prefix: inputRule,
          symbols: [`${firstType} ${type}${suffix} ${action} # ${propertyName}`],
      });
  } else {
      parts.modelRules.push({
          prefix: inputRule,
          symbols: [`${type}${suffix} ${action} # ${propertyName}`],
      });
  }
  \<close>
  \<open>firstType\<close> is \<open>null\<close> unless the list branch has set it; in a template literal
  \<open>null\<close> prints as \<open>null\<close>.
\<close>

definition suffixOf :: "property \<Rightarrow> string" where
  "suffixOf property =
     (let suffix = '':'';
          suffix1 = (if isArray property then suffix @ ''*'' else suffix);
          suffix2 = (if isOptional property then suffix1 @ ''?'' else suffix1)
      in if suffix2 = '':'' then '''' else suffix2)"

definition bindingRule ::
  "string \<Rightarrow> element \<Rightarrow> property \<Rightarrow> string option \<Rightarrow> string \<Rightarrow> string \<Rightarrow> string \<Rightarrow> modelRule" where
  "bindingRule inputRule element property firstType type' action propertyName =
     (if etype element = ''UListBinding'' \<or> etype element = ''OListBinding''
         \<or> etype element = ''JoinBinding''
      then \<lparr> mr_prefix = inputRule,
             mr_symbols = [(case firstType of None \<Rightarrow> ''null'' | Some ft \<Rightarrow> ft) @ '' '' @ type'
                           @ suffixOf property @ '' '' @ action @ '' # '' @ propertyName] \<rparr>
      else \<lparr> mr_prefix = inputRule,
             mr_symbols = [type' @ suffixOf property @ '' '' @ action @ '' # '' @ propertyName] \<rparr>)"

text \<open>The default action \<open>'{% id %}'\<close> and the action of a list rule:
  \<^verbatim>\<open>
  action = `
  {%
    ([ ${propertyName + 'First'}, ${propertyName} ]) => {
      return [${propertyName + 'First'}].concat(${propertyName});
  }
  %}`;
  \<close>
\<close>

definition idAction :: string where
  "idAction = ''{% id %}''"

definition listActionText :: "string \<Rightarrow> string" where
  "listActionText propertyName =
     [newline] @ ''{%'' @ [newline]
     @ ''  ([ '' @ propertyName @ ''First'' @ '', '' @ propertyName @ '' ]) => {'' @ [newline]
     @ ''    return ['' @ propertyName @ ''First'' @ ''].concat('' @ propertyName @ '');''
     @ [newline] @ ''}'' @ [newline] @ ''%}''"

section \<open>ParserManager: buildGrammarRules and handleBinding\<close>

text \<open>
  \<open>buildGrammarRules(ast, templateModel, prefix, parts)\<close> pushes the container rule of
  the level and then runs \<open>for (let rule in rules)\<close> with the \<open>switch\<close> on
  \<open>element.type\<close>; \<open>handleBinding\<close> calls it back on nested templates.  Both write:
  into \<open>parts\<close>, into \<open>this.ergoExpression\<close> and, through \<open>adjustListBlock\<close>, into the
  nested templates of the AST.  The model passes the three along and returns them.

  Four functions make up the recursion.
  \<^item> \<open>buildGrammarRules env this ast templateModel prefix parts\<close> is the method.
  \<^item> \<open>buildRules env this templateModel prefix index elements parts\<close> is the
    \<open>for (let rule in rules)\<close> loop, at the elements from \<open>index\<close> on.  The keys of
    \<open>rules\<close> are \<open>prefix + index\<close> for the kept elements; \<open>for ... in\<close> visits them
    in the order of the indices.
  \<^item> \<open>buildRule env this templateModel parts rule element\<close> is the body of that
    loop, the \<open>switch (element.type)\<close>.
  \<^item> \<open>handleBinding env this templateModel parts inputRule element\<close> is the method.
\<close>

function
  buildGrammarRules ::
    "collaborators \<Rightarrow> ParserManager \<Rightarrow> ast \<Rightarrow> classDeclaration \<Rightarrow> string \<Rightarrow> parts
       \<Rightarrow> error + (ParserManager \<times> parts \<times> ast)"
and buildRules ::
    "collaborators \<Rightarrow> ParserManager \<Rightarrow> classDeclaration \<Rightarrow> string \<Rightarrow> nat \<Rightarrow> ast \<Rightarrow> parts
       \<Rightarrow> error + (ParserManager \<times> parts \<times> ast)"
and buildRule ::
    "collaborators \<Rightarrow> ParserManager \<Rightarrow> classDeclaration \<Rightarrow> parts \<Rightarrow> string \<Rightarrow> element
       \<Rightarrow> error + (ParserManager \<times> parts \<times> element)"
and handleBinding ::
    "collaborators \<Rightarrow> ParserManager \<Rightarrow> classDeclaration \<Rightarrow> parts \<Rightarrow> string \<Rightarrow> element
       \<Rightarrow> error + (ParserManager \<times> parts \<times> element)"
where
  "buildGrammarRules env this ast' templateModel prefix parts' =
     buildRules env this templateModel prefix 0 ast'
       (push_textRule parts' (containerRule env ast' templateModel prefix parts'))"

| "buildRules env this templateModel prefix index [] parts' = Inr (this, parts', [])"

| "buildRules env this templateModel prefix index (element # elements) parts' =
     (if keptElement element then
        (case element of
           None \<Rightarrow> Inl TypeError
         | Some el \<Rightarrow>
             (case buildRule env this templateModel parts' (prefix @ string_of_nat index) el of
                Inl e \<Rightarrow> Inl e
              | Inr (this1, parts1, el1) \<Rightarrow>
                  (case buildRules env this1 templateModel prefix (Suc index) elements parts1 of
                     Inl e \<Rightarrow> Inl e
                   | Inr (this2, parts2, elements2) \<Rightarrow>
                       Inr (this2, parts2, Some el1 # elements2))))
      else
        (case buildRules env this templateModel prefix (Suc index) elements parts' of
           Inl e \<Rightarrow> Inl e
         | Inr (this2, parts2, elements2) \<Rightarrow> Inr (this2, parts2, element # elements2)))"

| "buildRule env this templateModel parts' rule element =
     (if etype element = ''Chunk'' \<or> etype element = ''LastChunk'' then
        (case evalue element of
           None \<Rightarrow> Inl TypeError
         | Some v \<Rightarrow>
             Inr (this,
                  push_modelRule parts' \<lparr> mr_prefix = rule, mr_symbols = [cleanChunk v] \<rparr>,
                  element))
      else if etype element = ''IfBinding'' then
        (case getProperty templateModel element of
           Inl e \<Rightarrow> Inl e
         | Inr property \<Rightarrow>
             (case element of
                IfBinding fn sIf \<Rightarrow>
                  if getType property \<noteq> ''Boolean'' then
                    Inl (throwTemplateExceptionForElement
                           (''An if block can only be used with a boolean property. Property ''
                            @ tvalue fn @ '' has type '' @ getType property) element)
                  else
                    Inr (this,
                         push_modelRule parts'
                           \<lparr> mr_prefix = rule,
                             mr_symbols = [[dquote] @ tvalue sIf @ [dquote]
                               @ '':? {% (d) => {return d[0] !== null;}%} # '' @ tvalue fn] \<rparr>,
                         element)
              | _ \<Rightarrow> Inl TypeError))
      else if etype element = ''IfElseBinding'' then
        (case getProperty templateModel element of
           Inl e \<Rightarrow> Inl e
         | Inr property \<Rightarrow>
             (case element of
                IfElseBinding fn sIf sElse \<Rightarrow>
                  if getType property \<noteq> ''Boolean'' then
                    Inl (throwTemplateExceptionForElement
                           (''An if block can only be used with a boolean property. Property ''
                            @ tvalue fn @ '' has type '' @ getType property) element)
                  else
                    Inr (this,
                         push_modelRule parts'
                           \<lparr> mr_prefix = rule,
                             mr_symbols = [''('' @ [dquote] @ tvalue sIf @ [dquote] @ ''|''
                               @ [dquote] @ tvalue sElse @ [dquote]
                               @ '') {% (d) => {return d[0][0] === '' @ [dquote] @ tvalue sIf
                               @ [dquote] @ '';}%} # '' @ tvalue fn] \<rparr>,
                         element)
              | _ \<Rightarrow> Inl TypeError))
      else if etype element \<in> set [''FormattedBinding'', ''Binding'', ''ClauseBinding'',
                ''WithBinding'', ''UListBinding'', ''OListBinding'', ''JoinBinding''] then
        handleBinding env this templateModel parts' rule element
      else if etype element = ''Expr'' then
        Inr (this\<lparr> ergoExpression := True \<rparr>,
             push_modelRule parts' \<lparr> mr_prefix = rule, mr_symbols = [''Any''] \<rparr>,
             element)
      else
        Inl (throwTemplateExceptionForElement (''Unrecognized type '' @ etype element) element))"

| "handleBinding env this templateModel parts' inputRule element =
     (case fieldName element of
        None \<Rightarrow> Inl TypeError
      | Some fn \<Rightarrow>
          (let propertyName = tvalue fn in
           case getProperty templateModel element of
             Inl e \<Rightarrow> Inl e
           | Inr property \<Rightarrow>
               if etype element = ''FormattedBinding'' \<or> getType property = ''DateTime'' then
                 (case formattedBinding env parts' property element propertyName of
                    Inl e \<Rightarrow> Inl e
                  | Inr (parts1, type') \<Rightarrow>
                      Inr (this,
                           push_modelRule parts1
                             (bindingRule inputRule element property None type' idAction
                                propertyName),
                           element))
               else if etype element = ''ClauseBinding'' \<or> etype element = ''WithBinding'' then
                 (case getClassDeclaration env (getFullyQualifiedTypeName property) of
                    Inl e \<Rightarrow> Inl e
                  | Inr nestedTemplateModel \<Rightarrow>
                      (case template element of
                         None \<Rightarrow> Inl TypeError
                       | Some nestedTemplate \<Rightarrow>
                           (case buildGrammarRules env this nestedTemplate nestedTemplateModel
                                   propertyName parts' of
                              Inl e \<Rightarrow> Inl e
                            | Inr (this1, parts1, template1) \<Rightarrow>
                                Inr (this1,
                                     push_modelRule parts1
                                       (bindingRule inputRule element property None (tvalue fn)
                                          idAction propertyName),
                                     setTemplate element template1))))
               else if etype element = ''UListBinding'' \<or> etype element = ''OListBinding''
                       \<or> etype element = ''JoinBinding'' then
                 (case getClassDeclaration env (getFullyQualifiedTypeName property) of
                    Inl e \<Rightarrow> Inl e
                  | Inr nestedTemplateModel \<Rightarrow>
                      (case template element of
                         None \<Rightarrow> Inl TypeError
                       | Some template0 \<Rightarrow>
                           (let separator' =
                                  (if etype element = ''JoinBinding''
                                   then (case separator element of Some s \<Rightarrow> s | None \<Rightarrow> ''undefined'')
                                   else if etype element = ''UListBinding'' then ''-  ''
                                   else ''1. '')
                            in case (if etype element = ''JoinBinding'' then Inr template0
                                     else adjustListBlock template0 separator') of
                                 Inl e \<Rightarrow> Inl e
                               | Inr firstNestedTemplate \<Rightarrow>
                                   (case buildGrammarRules env this firstNestedTemplate
                                           nestedTemplateModel (propertyName @ ''First'') parts' of
                                      Inl e \<Rightarrow> Inl e
                                    | Inr (this1, parts1, template1) \<Rightarrow>
                                        (case (if etype element = ''JoinBinding''
                                               then adjustListBlock template1 separator'
                                               else adjustListBlock template1 [newline]) of
                                           Inl e \<Rightarrow> Inl e
                                         | Inr nestedTemplate \<Rightarrow>
                                             (case buildGrammarRules env this1 nestedTemplate
                                                     nestedTemplateModel propertyName parts1 of
                                                Inl e \<Rightarrow> Inl e
                                              | Inr (this2, parts2, template2) \<Rightarrow>
                                                  Inr (this2,
                                                       push_modelRule parts2
                                                         (bindingRule inputRule element property
                                                            (Some (tvalue fn @ ''First''))
                                                            (tvalue fn)
                                                            (listActionText propertyName)
                                                            propertyName),
                                                       setTemplate element template2)))))))
               else
                 Inr (this,
                      push_modelRule parts'
                        (bindingRule inputRule element property None
                           (if isRelationshipDeclaration property then ''String''
                            else getType property)
                           idAction propertyName),
                      element)))"
  by pat_completeness auto

text \<open>
  Termination.  A nested template is smaller than the element that holds it, and
  \<open>adjustListBlock\<close> and the compiler itself change only the text of chunks, so the
  template handed to the second nested call has the size of the original one.
\<close>

abbreviation ast_size :: "ast \<Rightarrow> nat" where
  "ast_size \<equiv> size_list (size_option size)"

lemma size_template: "template e = Some t \<Longrightarrow> ast_size t < Suc (size e)"
  by (cases e) simp_all

lemma size_setTemplate:
  "template e = Some t \<Longrightarrow> ast_size t' = ast_size t \<Longrightarrow> size (setTemplate e t') = size e"
  by (cases e) simp_all

lemma size_adjustListBlock:
  "adjustListBlock t s = Inr t' \<Longrightarrow> ast_size t' = ast_size t"
  by (induction t s rule: adjustListBlock.induct) auto


lemma size_preserved_dom:
  "buildGrammarRules_buildRules_buildRule_handleBinding_dom (Inl (Inl (env, this, a, tm, pfx, p))) \<Longrightarrow>
     buildGrammarRules env this a tm pfx p = Inr (this', p', a') \<Longrightarrow> ast_size a' = ast_size a"
  "buildGrammarRules_buildRules_buildRule_handleBinding_dom (Inl (Inr (env, this, tm, pfx, i, a, p))) \<Longrightarrow>
     buildRules env this tm pfx i a p = Inr (this', p', a') \<Longrightarrow> ast_size a' = ast_size a"
  "buildGrammarRules_buildRules_buildRule_handleBinding_dom (Inr (Inl (env, this, tm, p, r, e))) \<Longrightarrow>
     buildRule env this tm p r e = Inr (this', p', e') \<Longrightarrow> size e' = size e"
  "buildGrammarRules_buildRules_buildRule_handleBinding_dom (Inr (Inr (env, this, tm, p, r, e))) \<Longrightarrow>
     handleBinding env this tm p r e = Inr (this', p', e') \<Longrightarrow> size e' = size e"
proof (induct env this a tm pfx p and env this tm pfx i a p and env this tm p r e and env this tm p r e
    arbitrary: this' p' a' and this' p' a' and this' p' e' and this' p' e'
    rule: buildGrammarRules_buildRules_buildRule_handleBinding.pinduct)
  case (1 env this ast' templateModel prefix parts')
  then show ?case by (simp add: buildGrammarRules.psimps)
next
  case (2 env this templateModel prefix index parts')
  then show ?case by (simp add: buildRules.psimps)
next
  case (3 env this templateModel prefix index element elements parts')
  note dom = "3.hyps"(1) and IH1 = "3.hyps"(2) and IH2 = "3.hyps"(3) and IH3 = "3.hyps"(4)
  note eq = "3.prems" [unfolded buildRules.psimps(2) [OF dom]]
  show ?case
  proof (cases "keptElement element")
    case False
    with eq obtain a2 where
      "buildRules env this templateModel prefix (Suc index) elements parts' = Inr (this', p', a2)"
      and "a' = element # a2"
      by (auto split: sum.splits)
    with IH3 [OF False] show ?thesis by simp
  next
    case True
    then obtain el where el: "element = Some el" by (cases element) auto
    with True eq obtain this1 parts1 el1 a2 where
      b1: "buildRule env this templateModel parts' (prefix @ string_of_nat index) el
             = Inr (this1, parts1, el1)"
      and b2: "buildRules env this1 templateModel prefix (Suc index) elements parts1
             = Inr (this', p', a2)"
      and a': "a' = Some el1 # a2"
      by (auto split: sum.splits)
    from IH1 [OF True el b1] have "size el1 = size el" .
    moreover from IH2 [OF True el b1 refl refl b2] have "ast_size a2 = ast_size elements" .
    ultimately show ?thesis using el a' by simp
  qed
next
  case (4 env this templateModel parts' rule element)
  note dom = "4.hyps"(1) and IH = "4.hyps"(2)
  note eq = "4.prems" [unfolded buildRule.psimps [OF dom]]
  show ?case
  proof (cases "etype element \<in> set [''FormattedBinding'', ''Binding'', ''ClauseBinding'',
                ''WithBinding'', ''UListBinding'', ''OListBinding'', ''JoinBinding'']")
    case True
    then have n: "\<not> (etype element = ''Chunk'' \<or> etype element = ''LastChunk'')"
      "etype element \<noteq> ''IfBinding''" "etype element \<noteq> ''IfElseBinding''"
      by auto
    from eq n True have "handleBinding env this templateModel parts' rule element = Inr (this', p', e')"
      by (simp only: if_False if_True)
    from IH [OF n True this] show ?thesis .
  next
    case False
    with eq have "e' = element"
      by (simp only: if_False split: if_splits option.splits sum.splits element.splits) auto
    then show ?thesis by simp
  qed
next
  case (5 env this templateModel parts' inputRule element)
  note dom = "5.hyps"(1) and IHc = "5.hyps"(2) and IH1 = "5.hyps"(3) and IH2 = "5.hyps"(4)
  note eq = "5.prems" [unfolded handleBinding.psimps [OF dom]]
  from eq obtain fn where fn: "fieldName element = Some fn"
    by (cases "fieldName element") auto
  from eq fn obtain property where pr: "getProperty templateModel element = Inr property"
    by (cases "getProperty templateModel element") (auto simp: Let_def)
  note eq1 = eq [unfolded fn pr Let_def option.case sum.case]
  show ?case
  proof (cases "etype element = ''FormattedBinding'' \<or> getType property = ''DateTime''")
    case True
    with eq1 have "e' = element" by (auto split: sum.splits)
    then show ?thesis by simp
  next
    case nf: False
    show ?thesis
    proof (cases "etype element = ''ClauseBinding'' \<or> etype element = ''WithBinding''")
      case True
      from eq1 nf True obtain t0 ntm this1 parts1 t1 where
        t0: "template element = Some t0"
        and ntm: "getClassDeclaration env (getFullyQualifiedTypeName property) = Inr ntm"
        and b: "buildGrammarRules env this t0 ntm (tvalue fn) parts' = Inr (this1, parts1, t1)"
        and e': "e' = setTemplate element t1"
        by (simp only: if_False if_True split: option.splits sum.splits prod.splits) auto
      from IHc [OF fn refl pr nf True ntm t0 b] have "ast_size t1 = ast_size t0" .
      with t0 e' show ?thesis by (simp add: size_setTemplate)
    next
      case nc: False
      show ?thesis
      proof (cases "etype element = ''UListBinding'' \<or> etype element = ''OListBinding''
                       \<or> etype element = ''JoinBinding''")
        case False
        with eq1 nf nc have "e' = element" by simp
        then show ?thesis by simp
      next
        case True
        define sep where "sep = (if etype element = ''JoinBinding''
                                   then (case separator element of Some s \<Rightarrow> s | None \<Rightarrow> ''undefined'')
                                   else if etype element = ''UListBinding'' then ''-  ''
                                   else ''1. '')"
        from eq1 nf nc True obtain ntm t0 ft this1 parts1 t1 nt this2 parts2 t2 where
          ntm: "getClassDeclaration env (getFullyQualifiedTypeName property) = Inr ntm"
          and t0: "template element = Some t0"
          and ft: "(if etype element = ''JoinBinding'' then Inr t0
                    else adjustListBlock t0 sep) = Inr ft"
          and b1: "buildGrammarRules env this ft ntm (tvalue fn @ ''First'') parts'
                     = Inr (this1, parts1, t1)"
          and nt: "(if etype element = ''JoinBinding'' then adjustListBlock t1 sep
                    else adjustListBlock t1 [newline]) = Inr nt"
          and b2: "buildGrammarRules env this1 nt ntm (tvalue fn) parts1 = Inr (this2, parts2, t2)"
          and e': "e' = setTemplate element t2"
          unfolding sep_def
          by (simp only: if_False if_True split: option.splits sum.splits prod.splits) auto
        from IH1 [OF fn refl pr nf nc True ntm t0 sep_def ft b1]
        have s1: "ast_size t1 = ast_size ft" .
        from IH2 [OF fn refl pr nf nc True ntm t0 sep_def ft b1 refl refl nt b2]
        have s2: "ast_size t2 = ast_size nt" .
        from ft have s0: "ast_size ft = ast_size t0"
          by (auto simp: size_adjustListBlock split: if_splits)
        from nt have s3: "ast_size nt = ast_size t1"
          by (auto simp: size_adjustListBlock split: if_splits)
        from s0 s1 s2 s3 t0 e' show ?thesis by (simp add: size_setTemplate)
      qed
    qed
  qed
qed

termination buildGrammarRules
  apply (relation "inv_image (less_than <*lex*> less_than) (\<lambda>x. case x of
      Inl (Inl (env, this, a, tm, pfx, p)) \<Rightarrow> (ast_size a, 2::nat)
    | Inl (Inr (env, this, tm, pfx, i, a, p)) \<Rightarrow> (ast_size a, 1)
    | Inr (Inl (env, this, tm, p, r, e)) \<Rightarrow> (Suc (size e), 1)
    | Inr (Inr (env, this, tm, p, r, e)) \<Rightarrow> (Suc (size e), 0))")
          apply (rule wf_inv_image)
          apply (rule wf_lex_prod)
           apply (rule wf_less_than)
          apply (rule wf_less_than)
         apply simp
        apply simp
       apply simp
      apply simp
     apply simp
    apply (simp add: size_template)
  apply (auto simp: size_template size_adjustListBlock size_preserved_dom(1) split: if_splits)
  done

declare buildGrammarRules.simps [simp del] buildRules.simps [simp del]
  buildRule.simps [simp del] handleBinding.simps [simp del]

section \<open>ParserManager: setGrammar, buildGrammar, getParser\<close>

text \<open>
  \<^verbatim>\<open>
  static compileGrammar(sourceCode) {
      try {
          ... nearley parses, compiles, generates and evaluates the grammar ...
          return module.exports;
      } catch (err) {
          Logger.error(err);
          throw err;
      }
  }
  \<close>
\<close>

definition compileGrammar :: "collaborators \<Rightarrow> string \<Rightarrow> error + compiledGrammar" where
  "compileGrammar env sourceCode =
     (case nearleyCompile env sourceCode of
        Inl err \<Rightarrow> Inl err
      | Inr exports \<Rightarrow> Inr exports)"

text \<open>
  \<^verbatim>\<open>
  setGrammar(grammar) {
      this.grammarAst = ParserManager.compileGrammar(grammar);
      this.grammar = grammar;
  }
  \<close>
\<close>

definition setGrammar :: "collaborators \<Rightarrow> ParserManager \<Rightarrow> string \<Rightarrow> error + ParserManager" where
  "setGrammar env this grammar' =
     (case compileGrammar env grammar' of
        Inl e \<Rightarrow> Inl e
      | Inr g \<Rightarrow> Inr (this\<lparr> grammarAst := Some g, grammar := Some grammar' \<rparr>))"

text \<open>
  \<^verbatim>\<open>
  buildGrammar(templatizedGrammar) {
      this.ergoExpression = false;
      templatizedGrammar = this.roundtripMarkdown(templatizedGrammar);
      const parser = new nearley.Parser(nearley.Grammar.fromCompiled(templateGrammar));
      parser.feed(templatizedGrammar);
      if (parser.results.length !== 1) {
          throw new Error('Ambiguous parse!');
      }
      const ast = parser.results[0];
      this.templateAst = ast;
      const parts = { textRules: [], modelRules: [], grammars : {} };
      parts.grammars.base = require('./grammars/base');
      this.buildGrammarRules(ast, this.template.getTemplateModel(), 'rule', parts);
      const parameters = { writer: new Writer(), rules : [] };
      const gv = new GrammarVisitor();
      this.template.getModelManager().accept(gv, parameters);
      parts.modelRules.push(...parameters.rules);
      nunjucks.configure( ... );
      const combined = nunjucks.render('template.ne', parts);
      this.setGrammar(combined);
      this.templatizedGrammar = templatizedGrammar;
  }
  \<close>
  \<open>this.templateAst\<close> is the object \<open>ast\<close> itself, so after \<open>buildGrammarRules\<close> it
  shows what \<open>adjustListBlock\<close> has written.  The model returns the ParserManager of a
  call that returns; a call that throws is an \<open>Inl\<close>.
\<close>

definition buildGrammar :: "collaborators \<Rightarrow> ParserManager \<Rightarrow> string \<Rightarrow> error + ParserManager" where
  "buildGrammar env this templatizedGrammar0 =
     (let this0 = this\<lparr> ergoExpression := False \<rparr> in
      case roundtripMarkdown env templatizedGrammar0 of
        Inl e \<Rightarrow> Inl e
      | Inr templatizedGrammar' \<Rightarrow>
      (case parseTemplate env templatizedGrammar' of
        Inl e \<Rightarrow> Inl e
      | Inr results \<Rightarrow>
      if length results \<noteq> 1 then Inl (Error ''Ambiguous parse!'')
      else
      (let ast' = hd results;
           parts' = \<lparr> textRules = [], modelRules = [],
                      grammars = [(''base'', baseGrammar env)] \<rparr>
       in
       case getTemplateModel env of
         Inl e \<Rightarrow> Inl e
       | Inr templateModel \<Rightarrow>
       (case buildGrammarRules env this0 ast' templateModel ''rule'' parts' of
         Inl e \<Rightarrow> Inl e
       | Inr (this1, parts1, ast1) \<Rightarrow>
       (case grammarVisitorRules env of
         Inl e \<Rightarrow> Inl e
       | Inr rules \<Rightarrow>
       (let parts2 = parts1\<lparr> modelRules := modelRules parts1 @ rules \<rparr> in
        case render env parts2 of
          Inl e \<Rightarrow> Inl e
        | Inr combined \<Rightarrow>
        (case setGrammar env (this1\<lparr> templateAst := Some ast1 \<rparr>) combined of
          Inl e \<Rightarrow> Inl e
        | Inr this3 \<Rightarrow> Inr (this3\<lparr> templatizedGrammar := Some templatizedGrammar' \<rparr>))))))))"

text \<open>
  A \<open>nearley.Parser\<close> object: the compiled grammar it was built from and its parse in
  progress (the chunks fed so far).  \<open>new\<close> allocates: the heap is the list of the
  parser objects created so far, and a reference to an object is its index in the heap.
\<close>

record nearleyParser =
  parser_grammar :: compiledGrammar
  parser_fed :: "string list"

text \<open>
  \<^verbatim>\<open>
  getParser() {
      if (!this.grammarAst) {
          throw new Error('Must call setGrammar or buildGrammar before calling getParser');
      }
      return new nearley.Parser(nearley.Grammar.fromCompiled(this.grammarAst));
  }
  \<close>
  A compiled grammar is an object, so \<open>!this.grammarAst\<close> holds exactly when the field
  is \<open>null\<close>.
\<close>

definition getParser ::
  "ParserManager \<Rightarrow> nearleyParser list \<Rightarrow> error + (nat \<times> nearleyParser list)" where
  "getParser this heap =
     (case grammarAst this of
        None \<Rightarrow> Inl (Error ''Must call setGrammar or buildGrammar before calling getParser'')
      | Some g \<Rightarrow> Inr (length heap, heap @ [\<lparr> parser_grammar = g, parser_fed = [] \<rparr>]))"

text \<open>
  The life of a ParserManager: \<open>calls env this succeeded\<close> says that \<open>this\<close> is a
  ParserManager after some sequence of calls of \<open>setGrammar\<close> and \<open>buildGrammar\<close> on a
  new one, and \<open>succeeded\<close> tells whether one of the calls has returned.  A
  \<open>setGrammar\<close> that throws has written nothing (the compilation throws before the first
  assignment).  A \<open>buildGrammar\<close> that throws may have written \<open>ergoExpression\<close> and
  \<open>templateAst\<close>; it writes the other fields only through \<open>setGrammar\<close> and after it.
\<close>

inductive calls :: "collaborators \<Rightarrow> ParserManager \<Rightarrow> bool \<Rightarrow> bool" for env where
  new: "calls env new_ParserManager False"
| setGrammar_returns:
    "calls env this b \<Longrightarrow> setGrammar env this g = Inr this' \<Longrightarrow> calls env this' True"
| setGrammar_throws:
    "calls env this b \<Longrightarrow> setGrammar env this g = Inl e \<Longrightarrow> calls env this b"
| buildGrammar_returns:
    "calls env this b \<Longrightarrow> buildGrammar env this t = Inr this' \<Longrightarrow> calls env this' True"
| buildGrammar_throws:
    "calls env this b \<Longrightarrow> buildGrammar env this t = Inl e \<Longrightarrow>
     grammarAst this' = grammarAst this \<Longrightarrow> grammar this' = grammar this \<Longrightarrow>
     templatizedGrammar this' = templatizedGrammar this \<Longrightarrow> calls env this' b"

section \<open>The semantic actions written into the rules\<close>

text \<open>
  The rules carry their semantic actions as JavaScript text.  The parsing engine calls
  the action of a rule with the array \<open>d\<close> of the values of the rule's symbols: the
  value of a literal is the matched text, the value of an optional symbol that is absent
  is \<open>null\<close>, the value of a parenthesised choice is the array of the values of the
  alternative taken, and the value of a repetition is the array of the values of its
  items.  The three actions the compiler writes, as functions of \<open>d\<close>.
\<close>

text \<open>\<open>xs[i]\<close> on an array.\<close>

definition array_index :: "json list \<Rightarrow> nat \<Rightarrow> json" where
  "array_index xs i = (if i < length xs then xs ! i else JUndefined)"





text \<open>
  \<open>([ fieldFirst, field ]) => { return [fieldFirst].concat(field); }\<close>, the action of
  a list rule.  \<open>concat\<close> appends the elements of an array argument and appends any
  other argument as one element.
\<close>

definition js_concat :: "json list \<Rightarrow> json \<Rightarrow> json list" where
  "js_concat xs v = (case v of JArr ys \<Rightarrow> xs @ ys | _ \<Rightarrow> xs @ [v])"

definition listAction :: "json list \<Rightarrow> error + json" where
  "listAction d =
     (let fieldFirst = array_index d 0; field = array_index d 1
      in Inr (JArr (js_concat [fieldFirst] field)))"

section \<open>Bindings\<close>

text \<open>The field-name token of a binding, \<open>None\<close> on an element that is not one of the
  nine kinds of binding.\<close>

fun bindingField :: "element \<Rightarrow> token option" where
  "bindingField (Binding fn fmt) = Some fn"
| "bindingField (FormattedBinding fn fmt) = Some fn"
| "bindingField (IfBinding fn sIf) = Some fn"
| "bindingField (IfElseBinding fn sIf sElse) = Some fn"
| "bindingField (ClauseBinding fn t) = Some fn"
| "bindingField (WithBinding fn t) = Some fn"
| "bindingField (UListBinding fn t) = Some fn"
| "bindingField (OListBinding fn t) = Some fn"
| "bindingField (JoinBinding fn sep t) = Some fn"
| "bindingField e = None"

section \<open>Example templates\<close>

text \<open>A small template model, its collaborators and a few tokens, used to run the
  compiler on concrete templates.\<close>

definition example_property :: "string \<Rightarrow> string \<Rightarrow> string \<Rightarrow> bool \<Rightarrow> property" where
  "example_property name type' fqType array =
     \<lparr> getName = name, getType = type', getFullyQualifiedTypeName = fqType, isArray = array,
       isOptional = False, isRelationshipDeclaration = False \<rparr>"

definition example_item :: classDeclaration where
  "example_item =
     \<lparr> getFullyQualifiedName = ''org.example.Item'', getIdentifierFieldName = None,
       getProperties = [example_property ''name'' ''String'' ''String'' False] \<rparr>"

definition example_model :: classDeclaration where
  "example_model =
     \<lparr> getFullyQualifiedName = ''org.example.Clause'',
       getIdentifierFieldName = Some ''clauseId'',
       getProperties =
         [example_property ''clauseId'' ''String'' ''String'' False,
          example_property ''forceMajeure'' ''Boolean'' ''Boolean'' False,
          example_property ''amount'' ''Integer'' ''Integer'' False,
          example_property ''items'' ''Item'' ''org.example.Item'' True,
          example_property ''dates'' ''DateTime'' ''DateTime'' True] \<rparr>"

definition example_collaborators :: collaborators where
  "example_collaborators =
     \<lparr> getTemplateModel = Inr example_model,
       getClassDeclaration =
         (\<lambda>name. if name = ''org.example.Item'' then Inr example_item
                  else Inl (Error ''Namespace is not defined for type'')),
       addGrammars = (\<lambda>formatParser g. g),
       buildFormatRules =
         (\<lambda>formatParser f. Inr [\<lparr> fr_name = ''DateTimeFormat'', fr_tokens = ''MM DD YYYY'',
                                    fr_action = ''{% id %}'' \<rparr>]),
       uuid_v4 = (\<lambda>n. ''00000000-0000-4000-8000-00000000000'' @ string_of_nat n),
       roundtripMarkdown = (\<lambda>text. Inr text),
       parseTemplate = (\<lambda>text. Inr [[Some (Chunk text)]]),
       baseGrammar = ''base'',
       grammarVisitorRules = Inr [],
       render = (\<lambda>p. Inr ''grammar''),
       nearleyCompile = (\<lambda>source. Inr (CompiledGrammar source)) \<rparr>"

definition example_token :: "string \<Rightarrow> token" where
  "example_token name = \<lparr> tvalue = name, line = 3, col = 7 \<rparr>"

definition example_parts :: parts where
  "example_parts = \<lparr> textRules = [], modelRules = [], grammars = [(''base'', ''base'')] \<rparr>"

section \<open>Example template instance\<close>

text \<open>A concrete set of collaborators of a template instance and a concrete instance
  with its data set.\<close>

definition example_externals :: "(unit, string, string) externals" where
  "example_externals =
     \<lparr> template_getIdentifier = ''helloworld@0.0.1'',
       templateModel_getFullyQualifiedName = ''org.accordproject.helloworld.HelloWorldClause'',
       metadata_getTemplateType = 1,
       serializer_fromJSON = (\<lambda>d. Inr ()),
       resource_validate = (\<lambda>r. Inr ()),
       draftCiceroMark = (\<lambda>d kind. Inr ''doc''),
       unquote = (\<lambda>cm. Inr cm),
       toCiceroMarkUnwrapped = (\<lambda>cm. Inr cm),
       toMarkdownCicero = (\<lambda>cm. Inr (''md:'' @ cm)),
       toHtml = (\<lambda>cm. Inr (''html:'' @ cm)),
       fromCiceroMark = (\<lambda>cm. Inr (''slate:'' @ cm)),
       JSON_stringify = (\<lambda>d. ''{}''),
       sha256_hex = (\<lambda>t. ''44136fa3'') \<rparr>"

definition example_data :: json where
  "example_data =
     JObj [(''$class'', JStr ''org.accordproject.helloworld.HelloWorldClause''),
           (''name'', JStr ''Fred'')]"

definition example_instance :: "unit TemplateInstance" where
  "example_instance = \<lparr> data = Some example_data, concertoData = Some () \<rparr>"

section \<open>Properties of cleanChunk\<close>

lemma replace_all_Nil: "replace_all c r [] = []"
  by (simp add: replace_all_def)

lemma replace_all_Cons:
  "replace_all c r (x # xs) = (if x = c then r else [x]) @ replace_all c r xs"
  by (simp add: replace_all_def)

lemma replace_all_no_char:
  "c \<notin> set r \<Longrightarrow> c \<notin> set (replace_all c r s)"
  by (induction s) (auto simp: replace_all_Nil replace_all_Cons)

lemma cleanChunk_no_newline: "newline \<notin> set (cleanChunk s)"
proof -
  have a: "newline \<notin> set (replace_all newline [backslash, CHR ''n''] s)"
    by (rule replace_all_no_char) (simp add: newline_def backslash_def)
  have b: "newline \<notin> set t \<Longrightarrow> newline \<notin> set (replace_all dquote [backslash, dquote] t)" for t
    by (induction t) (auto simp: replace_all_Nil replace_all_Cons newline_def backslash_def dquote_def)
  from a b show ?thesis
    by (simp add: cleanChunk_def Let_def newline_def dquote_def)
qed

text \<open>
  C8.  The claim: the emitted literal escapes every newline and every double quote, so
  that re-parsing the literal yields back the original chunk text exactly.  The two
  replacements are performed, but the backslash itself is not escaped: the chunk made of
  a newline and the chunk made of the two characters backslash, \<open>n\<close> are emitted as the
  same literal.  Hence no re-parsing function whatsoever recovers every chunk text from
  its literal.
\<close>

theorem cleanChunk_not_invertible:
  "cleanChunk [newline] = cleanChunk [backslash, CHR ''n''] \<and>
   \<not> (\<exists>reparse. \<forall>s. reparse (cleanChunk s) = s)"
proof -
  have eq: "cleanChunk [newline] = cleanChunk [backslash, CHR ''n'']"
    by (simp add: cleanChunk_def replace_all_def newline_def backslash_def dquote_def)
  have "\<not> (\<exists>reparse. \<forall>s. reparse (cleanChunk s) = s)"
  proof
    assume "\<exists>reparse. \<forall>s. reparse (cleanChunk s) = s"
    then obtain reparse where r: "\<forall>s. reparse (cleanChunk s) = s" ..
    from r have "reparse (cleanChunk [newline]) = [newline]" by blast
    moreover from r have "reparse (cleanChunk [backslash, CHR ''n'']) = [backslash, CHR ''n'']"
      by blast
    ultimately have "[newline] = [backslash, CHR ''n'']" using eq by simp
    then show False by simp
  qed
  with eq show ?thesis by simp
qed

section \<open>TemplateInstance.getIdentifier\<close>

lemma setData_data:
  "setData ext this d = Inr this' \<Longrightarrow> data this' = Some d \<and> (\<exists>kvs. d = JObj kvs)"
  by (cases d)
     (auto simp: setData_def split: sum.splits if_splits option.splits)

text \<open>
  C10.  With no data set the identifier is the template's identifier; after a successful
  \<open>setData d\<close> it is the template's identifier, a dash, and the SHA-256 hex digest of
  \<open>JSON.stringify d\<close>; hence two instances of one template whose data have the same JSON
  text have the same identifier.
\<close>

theorem getIdentifier_spec:
  "(data this = None \<longrightarrow> getIdentifier ext this = template_getIdentifier ext) \<and>
   (setData ext this d = Inr this' \<longrightarrow>
      getIdentifier ext this' =
        template_getIdentifier ext @ ''-'' @ sha256_hex ext (JSON_stringify ext d)) \<and>
   (setData ext a d1 = Inr a' \<and> setData ext b d2 = Inr b' \<and>
    JSON_stringify ext d1 = JSON_stringify ext d2 \<longrightarrow>
      getIdentifier ext a' = getIdentifier ext b')"
proof -
  have set_id: "getIdentifier ext t' =
      template_getIdentifier ext @ ''-'' @ sha256_hex ext (JSON_stringify ext x)"
    if "setData ext t x = Inr t'" for t t' x
  proof -
    from setData_data [OF that] obtain kvs where "data t' = Some x" and "x = JObj kvs"
      by blast
    then show ?thesis by (simp add: getIdentifier_def)
  qed
  have "data this = None \<longrightarrow> getIdentifier ext this = template_getIdentifier ext"
    by (simp add: getIdentifier_def)
  moreover have "setData ext this d = Inr this' \<longrightarrow>
      getIdentifier ext this' =
        template_getIdentifier ext @ ''-'' @ sha256_hex ext (JSON_stringify ext d)"
    using set_id by blast
  moreover have "setData ext a d1 = Inr a' \<and> setData ext b d2 = Inr b' \<and>
    JSON_stringify ext d1 = JSON_stringify ext d2 \<longrightarrow>
      getIdentifier ext a' = getIdentifier ext b'"
    using set_id by (metis (no_types))
  ultimately show ?thesis by blast
qed

theorem getIdentifier_spec_witness:
  "getIdentifier example_externals constructor = ''helloworld@0.0.1'' \<and>
   setData example_externals constructor example_data = Inr example_instance \<and>
   getIdentifier example_externals example_instance = ''helloworld@0.0.1-44136fa3''"
proof -
  have s: "setData example_externals constructor example_data = Inr example_instance"
    by (simp add: setData_def example_externals_def example_data_def example_instance_def
        constructor_def)
  have n: "data (constructor :: unit TemplateInstance) = None"
    by (simp add: constructor_def)
  from getIdentifier_spec [of constructor example_externals example_data example_instance
      constructor example_data example_instance constructor example_data example_instance] s n
  show ?thesis by (simp add: example_externals_def)
qed

section \<open>TemplateInstance.draft\<close>

lemma draft_no_data:
  "concertoData this = None \<Longrightarrow>
   draft ext this opts =
     Inl (Error ''Data has not been set. Call setData or parse before calling this method.'')"
  by (simp add: draft_def)

lemma draft_formatCiceroMark:
  "concertoData this \<noteq> None \<Longrightarrow>
   draftCiceroMark ext (data this)
     (if metadata_getTemplateType ext \<noteq> 0 then ''clause'' else ''contract'') = Inr cm \<Longrightarrow>
   draft ext this opts = formatCiceroMark ext cm opts"
  by (auto simp: draft_def)

text \<open>
  C9, as the code has it.  Without data \<open>draft\<close> fails before anything is rendered.  With
  data, and once the markup transformer has drafted the document \<open>cm\<close>, the format
  option selects the rendering: a missing or empty format gives the normalized markup,
  \<open>ciceromark_parsed\<close> returns \<open>cm\<close> itself, \<open>html\<close> gives HTML, \<open>slate\<close> gives the
  Slate document, and every other (non-empty) format fails with
  \<open>Unsupported format: \<close> followed by the format.
\<close>

theorem draft_selects_format:
  "(concertoData this = None \<longrightarrow>
      draft ext this opts =
        Inl (Error ''Data has not been set. Call setData or parse before calling this method.'')) \<and>
   (concertoData this \<noteq> None \<and>
    draftCiceroMark ext (data this)
      (if metadata_getTemplateType ext \<noteq> 0 then ''clause'' else ''contract'') = Inr cm \<longrightarrow>
      (case (case opts of None \<Rightarrow> None | Some o' \<Rightarrow> format o') of
         None \<Rightarrow>
           draft ext this opts =
             (case unquoteIfAsked ext opts cm of
                Inl e \<Rightarrow> Inl e
              | Inr cm' \<Rightarrow>
                  (case toCiceroMarkUnwrapped ext cm' of
                     Inl e \<Rightarrow> Inl e
                   | Inr u \<Rightarrow>
                       (case toMarkdownCicero ext u of
                          Inl e \<Rightarrow> Inl e
                        | Inr text \<Rightarrow> Inr (Markdown text))))
       | Some f \<Rightarrow>
           if f = [] then
             draft ext this opts =
               (case unquoteIfAsked ext opts cm of
                  Inl e \<Rightarrow> Inl e
                | Inr cm' \<Rightarrow>
                    (case toCiceroMarkUnwrapped ext cm' of
                       Inl e \<Rightarrow> Inl e
                     | Inr u \<Rightarrow>
                         (case toMarkdownCicero ext u of
                            Inl e \<Rightarrow> Inl e
                          | Inr text \<Rightarrow> Inr (Markdown text))))
           else if f = ''ciceromark_parsed'' then
             draft ext this opts = Inr (CiceroMarkParsed cm)
           else if f = ''html'' then
             draft ext this opts =
               (case unquoteIfAsked ext opts cm of
                  Inl e \<Rightarrow> Inl e
                | Inr cm' \<Rightarrow>
                    (case toHtml ext cm' of Inl e \<Rightarrow> Inl e | Inr h \<Rightarrow> Inr (Html h)))
           else if f = ''slate'' then
             draft ext this opts =
               (case unquoteIfAsked ext opts cm of
                  Inl e \<Rightarrow> Inl e
                | Inr cm' \<Rightarrow>
                    (case fromCiceroMark ext cm' of Inl e \<Rightarrow> Inl e | Inr s \<Rightarrow> Inr (Slate s)))
           else draft ext this opts = Inl (Error (''Unsupported format: '' @ f))))"
proof (intro conjI impI)
  assume "concertoData this = None"
  then show "draft ext this opts =
      Inl (Error ''Data has not been set. Call setData or parse before calling this method.'')"
    by (rule draft_no_data)
next
  assume a: "concertoData this \<noteq> None \<and>
    draftCiceroMark ext (data this)
      (if metadata_getTemplateType ext \<noteq> 0 then ''clause'' else ''contract'') = Inr cm"
  then have d: "draft ext this opts = formatCiceroMark ext cm opts"
    by (simp add: draft_formatCiceroMark)
  show "case (case opts of None \<Rightarrow> None | Some o' \<Rightarrow> format o') of
         None \<Rightarrow>
           draft ext this opts =
             (case unquoteIfAsked ext opts cm of
                Inl e \<Rightarrow> Inl e
              | Inr cm' \<Rightarrow>
                  (case toCiceroMarkUnwrapped ext cm' of
                     Inl e \<Rightarrow> Inl e
                   | Inr u \<Rightarrow>
                       (case toMarkdownCicero ext u of
                          Inl e \<Rightarrow> Inl e
                        | Inr text \<Rightarrow> Inr (Markdown text))))
       | Some f \<Rightarrow>
           if f = [] then
             draft ext this opts =
               (case unquoteIfAsked ext opts cm of
                  Inl e \<Rightarrow> Inl e
                | Inr cm' \<Rightarrow>
                    (case toCiceroMarkUnwrapped ext cm' of
                       Inl e \<Rightarrow> Inl e
                     | Inr u \<Rightarrow>
                         (case toMarkdownCicero ext u of
                            Inl e \<Rightarrow> Inl e
                          | Inr text \<Rightarrow> Inr (Markdown text))))
           else if f = ''ciceromark_parsed'' then
             draft ext this opts = Inr (CiceroMarkParsed cm)
           else if f = ''html'' then
             draft ext this opts =
               (case unquoteIfAsked ext opts cm of
                  Inl e \<Rightarrow> Inl e
                | Inr cm' \<Rightarrow>
                    (case toHtml ext cm' of Inl e \<Rightarrow> Inl e | Inr h \<Rightarrow> Inr (Html h)))
           else if f = ''slate'' then
             draft ext this opts =
               (case unquoteIfAsked ext opts cm of
                  Inl e \<Rightarrow> Inl e
                | Inr cm' \<Rightarrow>
                    (case fromCiceroMark ext cm' of Inl e \<Rightarrow> Inl e | Inr s \<Rightarrow> Inr (Slate s)))
           else draft ext this opts = Inl (Error (''Unsupported format: '' @ f))"
    unfolding d
    by (cases "case opts of None \<Rightarrow> None | Some o' \<Rightarrow> format o'")
       (simp_all add: formatCiceroMark_def)
qed

theorem draft_selects_format_witness:
  "draft example_externals constructor
     (Some \<lparr> format = Some ''html'', unquoteVariables = False \<rparr>) =
     Inl (Error ''Data has not been set. Call setData or parse before calling this method.'') \<and>
   draft example_externals example_instance
     (Some \<lparr> format = Some ''html'', unquoteVariables = False \<rparr>) = Inr (Html ''html:doc'') \<and>
   draft example_externals example_instance
     (Some \<lparr> format = Some ''pdf'', unquoteVariables = False \<rparr>) =
     Inl (Error ''Unsupported format: pdf'')"
proof -
  have c0: "concertoData (constructor :: unit TemplateInstance) = None"
    by (simp add: constructor_def)
  have c1: "concertoData example_instance \<noteq> None \<and>
    draftCiceroMark example_externals (data example_instance)
      (if metadata_getTemplateType example_externals \<noteq> 0 then ''clause'' else ''contract'')
      = Inr ''doc''"
    by (simp add: example_instance_def example_externals_def)
  have "draft example_externals constructor
     (Some \<lparr> format = Some ''html'', unquoteVariables = False \<rparr>) =
     Inl (Error ''Data has not been set. Call setData or parse before calling this method.'')"
    using draft_selects_format [of constructor example_externals _ "''doc''"] c0 by blast
  moreover have "draft example_externals example_instance
     (Some \<lparr> format = Some ''html'', unquoteVariables = False \<rparr>) = Inr (Html ''html:doc'')"
    using draft_selects_format [of example_instance example_externals
        "Some \<lparr> format = Some ''html'', unquoteVariables = False \<rparr>" "''doc''"] c1
    by (simp add: unquoteIfAsked_def example_externals_def)
  moreover have "draft example_externals example_instance
     (Some \<lparr> format = Some ''pdf'', unquoteVariables = False \<rparr>) =
     Inl (Error ''Unsupported format: pdf'')"
    using draft_selects_format [of example_instance example_externals
        "Some \<lparr> format = Some ''pdf'', unquoteVariables = False \<rparr>" "''doc''"] c1
    by simp
  ultimately show ?thesis by blast
qed

text \<open>
  The claim as written says that every format value other than the three names fails.
  The empty string is such a value, and \<open>draft\<close> renders the normalized markup for it.
\<close>

theorem draft_empty_format_counterexample:
  "\<not> (\<forall>f. f \<notin> {''ciceromark_parsed'', ''html'', ''slate''} \<longrightarrow>
         (\<exists>e. draft example_externals example_instance
                 (Some \<lparr> format = Some f, unquoteVariables = False \<rparr>) = Inl e))"
proof
  assume "\<forall>f. f \<notin> {''ciceromark_parsed'', ''html'', ''slate''} \<longrightarrow>
         (\<exists>e. draft example_externals example_instance
                 (Some \<lparr> format = Some f, unquoteVariables = False \<rparr>) = Inl e)"
  then have "\<exists>e. draft example_externals example_instance
                 (Some \<lparr> format = Some [], unquoteVariables = False \<rparr>) = Inl e"
    by simp
  moreover have "draft example_externals example_instance
                 (Some \<lparr> format = Some [], unquoteVariables = False \<rparr>) = Inr (Markdown ''md:doc'')"
    by (simp add: draft_def formatCiceroMark_def unquoteIfAsked_def example_externals_def
        example_instance_def)
  ultimately show False by simp
qed

section \<open>The compiler: how a successful call decomposes\<close>

lemma buildRules_Nil: "buildRules env this tm prefix index [] parts' = Inr (this, parts', [])"
  by (simp add: buildRules.simps)

lemma buildRules_skip:
  "\<not> keptElement element \<Longrightarrow>
   buildRules env this tm prefix index (element # elements) parts' =
     (case buildRules env this tm prefix (Suc index) elements parts' of
        Inl e \<Rightarrow> Inl e
      | Inr (this2, parts2, elements2) \<Rightarrow> Inr (this2, parts2, element # elements2))"
  by (simp add: buildRules.simps)

lemma buildRules_keep:
  "keptElement (Some el) \<Longrightarrow>
   buildRules env this tm prefix index (Some el # elements) parts' =
     (case buildRule env this tm parts' (prefix @ string_of_nat index) el of
        Inl e \<Rightarrow> Inl e
      | Inr (this1, parts1, el1) \<Rightarrow>
          (case buildRules env this1 tm prefix (Suc index) elements parts1 of
             Inl e \<Rightarrow> Inl e
           | Inr (this2, parts2, elements2) \<Rightarrow> Inr (this2, parts2, Some el1 # elements2)))"
  by (simp add: buildRules.simps)

lemma keptElement_Some: "keptElement element \<Longrightarrow> \<exists>el. element = Some el"
  by (cases element) auto

lemma buildRules_Cons_Inr:
  assumes "buildRules env this tm prefix index (element # elements) parts' = Inr (this', p', a')"
  obtains (skip) a2 where "\<not> keptElement element"
      and "buildRules env this tm prefix (Suc index) elements parts' = Inr (this', p', a2)"
      and "a' = element # a2"
  | (keep) el this1 parts1 el1 a2 where "keptElement element" and "element = Some el"
      and "buildRule env this tm parts' (prefix @ string_of_nat index) el = Inr (this1, parts1, el1)"
      and "buildRules env this1 tm prefix (Suc index) elements parts1 = Inr (this', p', a2)"
      and "a' = Some el1 # a2"
proof (cases "keptElement element")
  case False
  with assms skip show ?thesis
    by (auto simp: buildRules_skip split: sum.splits)
next
  case True
  then obtain el where el: "element = Some el" by (auto dest: keptElement_Some)
  with True assms keep show ?thesis
    by (auto simp: buildRules_keep split: sum.splits)
qed

text \<open>The binding types that the \<open>switch\<close> hands to \<open>handleBinding\<close>.\<close>

lemma buildRule_handleBinding:
  "etype element \<in> set [''FormattedBinding'', ''Binding'', ''ClauseBinding'',
                ''WithBinding'', ''UListBinding'', ''OListBinding'', ''JoinBinding''] \<Longrightarrow>
   buildRule env this tm parts' rule element = handleBinding env this tm parts' rule element"
  by (subst buildRule.simps) auto

lemma buildRule_other_Inr:
  assumes "etype element \<notin> set [''FormattedBinding'', ''Binding'', ''ClauseBinding'',
                ''WithBinding'', ''UListBinding'', ''OListBinding'', ''JoinBinding'']"
    and "buildRule env this tm parts' rule element = Inr (this', p', e')"
  shows "e' = element \<and> textRules p' = textRules parts' \<and>
         (\<exists>r. modelRules p' = modelRules parts' @ [r] \<and> mr_prefix r = rule)"
  using assms
  by (subst (asm) buildRule.simps)
     (auto simp: push_modelRule_def split: if_splits option.splits sum.splits element.splits)

lemma handleBinding_Inr:
  assumes "handleBinding env this tm parts' inputRule element = Inr (this', p', e')"
  obtains (formatted) fn property parts1 type' where
      "fieldName element = Some fn" and "getProperty tm element = Inr property"
      and "etype element = ''FormattedBinding'' \<or> getType property = ''DateTime''"
      and "formattedBinding env parts' property element (tvalue fn) = Inr (parts1, type')"
      and "this' = this"
      and "p' = push_modelRule parts1
                  (bindingRule inputRule element property None type' idAction (tvalue fn))"
      and "e' = element"
  | (nested) fn property t0 ntm parts1 t1 where
      "fieldName element = Some fn" and "getProperty tm element = Inr property"
      and "\<not> (etype element = ''FormattedBinding'' \<or> getType property = ''DateTime'')"
      and "etype element = ''ClauseBinding'' \<or> etype element = ''WithBinding''"
      and "template element = Some t0"
      and "getClassDeclaration env (getFullyQualifiedTypeName property) = Inr ntm"
      and "buildGrammarRules env this t0 ntm (tvalue fn) parts' = Inr (this', parts1, t1)"
      and "p' = push_modelRule parts1
                  (bindingRule inputRule element property None (tvalue fn) idAction (tvalue fn))"
      and "e' = setTemplate element t1"
  | (list) fn property ntm t0 sep ft this1 parts1 t1 nt parts2 t2 where
      "fieldName element = Some fn" and "getProperty tm element = Inr property"
      and "\<not> (etype element = ''FormattedBinding'' \<or> getType property = ''DateTime'')"
      and "etype element = ''UListBinding'' \<or> etype element = ''OListBinding''
             \<or> etype element = ''JoinBinding''"
      and "getClassDeclaration env (getFullyQualifiedTypeName property) = Inr ntm"
      and "template element = Some t0"
      and "sep = (if etype element = ''JoinBinding''
                  then (case separator element of Some s \<Rightarrow> s | None \<Rightarrow> ''undefined'')
                  else if etype element = ''UListBinding'' then ''-  '' else ''1. '')"
      and "(if etype element = ''JoinBinding'' then Inr t0 else adjustListBlock t0 sep) = Inr ft"
      and "buildGrammarRules env this ft ntm (tvalue fn @ ''First'') parts' = Inr (this1, parts1, t1)"
      and "(if etype element = ''JoinBinding'' then adjustListBlock t1 sep
            else adjustListBlock t1 [newline]) = Inr nt"
      and "buildGrammarRules env this1 nt ntm (tvalue fn) parts1 = Inr (this', parts2, t2)"
      and "p' = push_modelRule parts2
                  (bindingRule inputRule element property (Some (tvalue fn @ ''First''))
                     (tvalue fn) (listActionText (tvalue fn)) (tvalue fn))"
      and "e' = setTemplate element t2"
  | (plain) fn property where
      "fieldName element = Some fn" and "getProperty tm element = Inr property"
      and "\<not> (etype element = ''FormattedBinding'' \<or> getType property = ''DateTime'')"
      and "\<not> (etype element = ''ClauseBinding'' \<or> etype element = ''WithBinding'')"
      and "\<not> (etype element = ''UListBinding'' \<or> etype element = ''OListBinding''
             \<or> etype element = ''JoinBinding'')"
      and "this' = this"
      and "p' = push_modelRule parts'
                  (bindingRule inputRule element property None
                     (if isRelationshipDeclaration property then ''String'' else getType property)
                     idAction (tvalue fn))"
      and "e' = element"
proof -
  note eq = assms [unfolded handleBinding.simps]
  from eq obtain fn where fn: "fieldName element = Some fn"
    by (cases "fieldName element") auto
  from eq fn obtain property where pr: "getProperty tm element = Inr property"
    by (cases "getProperty tm element") (auto simp: Let_def)
  note eq1 = eq [unfolded fn pr Let_def option.case sum.case]
  show ?thesis
  proof (cases "etype element = ''FormattedBinding'' \<or> getType property = ''DateTime''")
    case True
    with eq1 obtain parts1 type' where
      "formattedBinding env parts' property element (tvalue fn) = Inr (parts1, type')"
      and "this' = this"
      and "p' = push_modelRule parts1
                  (bindingRule inputRule element property None type' idAction (tvalue fn))"
      and "e' = element"
      by (auto split: sum.splits)
    with formatted [OF fn pr True] show ?thesis by blast
  next
    case nf: False
    show ?thesis
    proof (cases "etype element = ''ClauseBinding'' \<or> etype element = ''WithBinding''")
      case True
      from eq1 nf True obtain t0 ntm parts1 t1 where
        "template element = Some t0"
        and "getClassDeclaration env (getFullyQualifiedTypeName property) = Inr ntm"
        and "buildGrammarRules env this t0 ntm (tvalue fn) parts' = Inr (this', parts1, t1)"
        and "p' = push_modelRule parts1
                  (bindingRule inputRule element property None (tvalue fn) idAction (tvalue fn))"
        and "e' = setTemplate element t1"
        by (simp only: if_False if_True split: option.splits sum.splits prod.splits) auto
      with nested [OF fn pr nf True] show ?thesis by blast
    next
      case nc: False
      show ?thesis
      proof (cases "etype element = ''UListBinding'' \<or> etype element = ''OListBinding''
                       \<or> etype element = ''JoinBinding''")
        case False
        with eq1 nf nc have "this' = this"
          and "p' = push_modelRule parts'
                  (bindingRule inputRule element property None
                     (if isRelationshipDeclaration property then ''String'' else getType property)
                     idAction (tvalue fn))"
          and "e' = element"
          by auto
        with plain [OF fn pr nf nc False] show ?thesis by blast
      next
        case True
        define sep where "sep = (if etype element = ''JoinBinding''
                                   then (case separator element of Some s \<Rightarrow> s | None \<Rightarrow> ''undefined'')
                                   else if etype element = ''UListBinding'' then ''-  ''
                                   else ''1. '')"
        from eq1 nf nc True obtain ntm t0 ft this1 parts1 t1 nt parts2 t2 where
          "getClassDeclaration env (getFullyQualifiedTypeName property) = Inr ntm"
          and "template element = Some t0"
          and "(if etype element = ''JoinBinding'' then Inr t0
                    else adjustListBlock t0 sep) = Inr ft"
          and "buildGrammarRules env this ft ntm (tvalue fn @ ''First'') parts'
                     = Inr (this1, parts1, t1)"
          and "(if etype element = ''JoinBinding'' then adjustListBlock t1 sep
                    else adjustListBlock t1 [newline]) = Inr nt"
          and "buildGrammarRules env this1 nt ntm (tvalue fn) parts1 = Inr (this', parts2, t2)"
          and "p' = push_modelRule parts2
                  (bindingRule inputRule element property (Some (tvalue fn @ ''First''))
                     (tvalue fn) (listActionText (tvalue fn)) (tvalue fn))"
          and "e' = setTemplate element t2"
          unfolding sep_def
          by (simp only: if_False if_True split: option.splits sum.splits prod.splits) auto
        with list [OF fn pr nf True _ _ sep_def] show ?thesis by blast
      qed
    qed
  qed
qed

section \<open>The compiler only appends to the rule lists\<close>

definition grows :: "parts \<Rightarrow> parts \<Rightarrow> bool" where
  "grows p p' \<longleftrightarrow>
     (\<exists>ts. textRules p' = textRules p @ ts) \<and> (\<exists>ms. modelRules p' = modelRules p @ ms)"

lemma grows_refl: "grows p p"
  by (simp add: grows_def)

lemma grows_trans: "grows p q \<Longrightarrow> grows q r \<Longrightarrow> grows p r"
  by (auto simp: grows_def)

lemma grows_push_modelRule: "grows p (push_modelRule p r)"
  by (simp add: grows_def push_modelRule_def)

lemma grows_push_textRule: "grows p (push_textRule p r)"
  by (simp add: grows_def push_textRule_def)

lemma grows_addFormatRule:
  "grows p (fst (addFormatRule propertyName fmt formatRule (p, ty)))"
  by (simp add: addFormatRule_def Let_def grows_push_modelRule grows_refl)

lemma grows_fold_addFormatRule:
  "grows p (fst (fold (addFormatRule propertyName fmt) formatRules (p, ty)))"
proof (induction formatRules arbitrary: p ty)
  case Nil
  show ?case by (simp add: grows_refl)
next
  case (Cons r rs)
  obtain q ty' where q: "addFormatRule propertyName fmt r (p, ty) = (q, ty')"
    by (cases "addFormatRule propertyName fmt r (p, ty)")
  have "grows p q" using grows_addFormatRule [of p propertyName fmt r ty] q by simp
  moreover have "grows q (fst (fold (addFormatRule propertyName fmt) rs (q, ty')))"
    by (rule Cons.IH)
  ultimately show ?case using q by (auto intro: grows_trans)
qed

lemma grows_formattedBinding:
  assumes "formattedBinding env p property element propertyName = Inr (p', ty)"
  shows "grows p p'"
proof -
  from assms obtain fp fmt rules where
    r: "p' = fst (fold (addFormatRule propertyName fmt) rules
                   (p\<lparr> grammars := addGrammars env fp (grammars p) \<rparr>, getType property))"
    by (auto simp: formattedBinding_def Let_def split: sum.splits prod.splits)
       (metis fst_conv)
  have "grows p (p\<lparr> grammars := addGrammars env fp (grammars p) \<rparr>)"
    by (simp add: grows_def)
  with r show ?thesis
    using grows_fold_addFormatRule grows_trans by blast
qed

lemma compiler_grows:
  "buildGrammarRules env this a tm pfx p = Inr (this', p', a') \<Longrightarrow> grows p p'"
  "buildRules env this tm pfx i a p = Inr (this', p', a') \<Longrightarrow> grows p p'"
  "buildRule env this tm p r e = Inr (this', p', e') \<Longrightarrow> grows p p'"
  "handleBinding env this tm p r e = Inr (this', p', e') \<Longrightarrow> grows p p'"
proof (induct env this a tm pfx p and env this tm pfx i a p and env this tm p r e and env this tm p r e
    arbitrary: this' p' a' and this' p' a' and this' p' e' and this' p' e'
    rule: buildGrammarRules_buildRules_buildRule_handleBinding.induct)
  case (1 env this ast' templateModel prefix parts')
  from "1.prems" have "buildRules env this templateModel prefix 0 ast'
       (push_textRule parts' (containerRule env ast' templateModel prefix parts')) = Inr (this', p', a')"
    by (simp add: buildGrammarRules.simps)
  from "1.hyps" [OF this] show ?case
    using grows_push_textRule grows_trans by blast
next
  case (2 env this templateModel prefix index parts')
  then show ?case by (simp add: buildRules_Nil grows_refl)
next
  case (3 env this templateModel prefix index element elements parts')
  note IH1 = "3.hyps"(1) and IH2 = "3.hyps"(2) and IH3 = "3.hyps"(3)
  from "3.prems" show ?case
  proof (cases rule: buildRules_Cons_Inr)
    case (skip a2)
    from IH3 [OF skip(1) skip(2)] show ?thesis .
  next
    case (keep el this1 parts1 el1 a2)
    from IH1 [OF keep(1) keep(2) keep(3)] have "grows parts' parts1" .
    moreover from IH2 [OF keep(1) keep(2) keep(3) refl refl keep(4)] have "grows parts1 p'" .
    ultimately show ?thesis by (rule grows_trans)
  qed
next
  case (4 env this templateModel parts' rule element)
  show ?case
  proof (cases "etype element \<in> set [''FormattedBinding'', ''Binding'', ''ClauseBinding'',
                ''WithBinding'', ''UListBinding'', ''OListBinding'', ''JoinBinding'']")
    case True
    then have n: "\<not> (etype element = ''Chunk'' \<or> etype element = ''LastChunk'')"
      "etype element \<noteq> ''IfBinding''" "etype element \<noteq> ''IfElseBinding''"
      by auto
    from "4.prems" True
    have "handleBinding env this templateModel parts' rule element = Inr (this', p', e')"
      by (simp only: buildRule_handleBinding)
    from "4.hyps" [OF n True this] show ?thesis .
  next
    case False
    from buildRule_other_Inr [OF False "4.prems"] show ?thesis
      by (auto simp: grows_def)
  qed
next
  case (5 env this templateModel parts' inputRule element)
  note IHc = "5.hyps"(1) and IH1 = "5.hyps"(2) and IH2 = "5.hyps"(3)
  from "5.prems" show ?case
  proof (cases rule: handleBinding_Inr)
    case (formatted fn property parts1 type')
    from grows_formattedBinding [OF formatted(4)] formatted(6) show ?thesis
      using grows_push_modelRule grows_trans by blast
  next
    case (nested fn property t0 ntm parts1 t1)
    from IHc [OF nested(1) refl nested(2) nested(3) nested(4) nested(6) nested(5) nested(7)]
    have "grows parts' parts1" .
    with nested(8) show ?thesis
      using grows_push_modelRule grows_trans by blast
  next
    case (list fn property ntm t0 sep ft this1 parts1 t1 nt parts2 t2)
    have nc: "\<not> (etype element = ''ClauseBinding'' \<or> etype element = ''WithBinding'')"
      using list(4) by auto
    from IH1 [OF list(1) refl list(2) list(3) nc list(4) list(5) list(6) list(7) list(8) list(9)]
    have g1: "grows parts' parts1" .
    from IH2 [OF list(1) refl list(2) list(3) nc list(4) list(5) list(6) list(7) list(8) list(9)
        refl refl list(10) list(11)]
    have g2: "grows parts1 parts2" .
    from g1 g2 list(12) show ?thesis
      using grows_push_modelRule grows_trans by blast
  next
    case (plain fn property)
    then show ?thesis by (simp add: grows_push_modelRule)
  qed
qed

lemma buildGrammarRules_container:
  assumes "buildGrammarRules env this a tm pfx p = Inr (this', p', a')"
  shows "\<exists>ts. textRules p' = textRules p @ containerRule env a tm pfx p # ts"
proof -
  from assms have "buildRules env this tm pfx 0 a
       (push_textRule p (containerRule env a tm pfx p)) = Inr (this', p', a')"
    by (simp add: buildGrammarRules.simps)
  from compiler_grows(2) [OF this] show ?thesis
    by (auto simp: grows_def push_textRule_def)
qed

section \<open>ParserManager.buildGrammar: the number of parses\<close>

lemma buildGrammar_not_one:
  assumes "roundtripMarkdown env t = Inr t'" and "parseTemplate env t' = Inr results"
    and "length results \<noteq> 1"
  shows "buildGrammar env this t = Inl (Error ''Ambiguous parse!'')"
  using assms by (simp add: buildGrammar_def)

lemma buildGrammar_returns_one:
  assumes "buildGrammar env this t = Inr this'"
  shows "\<exists>t' ast'. roundtripMarkdown env t = Inr t' \<and> parseTemplate env t' = Inr [ast']"
proof -
  from assms obtain t' results where
    r: "roundtripMarkdown env t = Inr t'" and p: "parseTemplate env t' = Inr results"
    and l: "length results = 1"
    by (auto simp: buildGrammar_def Let_def split: sum.splits if_splits)
  from l obtain ast' where "results = [ast']"
    by (cases results) auto
  with r p show ?thesis by blast
qed

text \<open>
  C3, as the code has it.  When the template parser returns a number of results other
  than one, \<open>buildGrammar\<close> throws \<open>Error('Ambiguous parse!')\<close>, the same error for no
  result and for several; and a \<open>buildGrammar\<close> that returns has parsed the template to
  exactly one result.
\<close>

theorem buildGrammar_rejects_not_one:
  "(roundtripMarkdown env t = Inr t' \<and> parseTemplate env t' = Inr results \<and>
    length results \<noteq> 1 \<longrightarrow>
      buildGrammar env this t = Inl (Error ''Ambiguous parse!'')) \<and>
   (buildGrammar env this t = Inr this' \<longrightarrow>
      (\<exists>t'' ast'. roundtripMarkdown env t = Inr t'' \<and> parseTemplate env t'' = Inr [ast']))"
  using buildGrammar_not_one buildGrammar_returns_one by blast

theorem buildGrammar_rejects_not_one_witness:
  "buildGrammar (example_collaborators\<lparr> parseTemplate := (\<lambda>text. Inr []) \<rparr>)
     new_ParserManager ''Hello'' = Inl (Error ''Ambiguous parse!'') \<and>
   (\<exists>this'. buildGrammar example_collaborators new_ParserManager ''Hello'' = Inr this') \<and>
   parseTemplate example_collaborators ''Hello'' = Inr [[Some (Chunk ''Hello'')]]"
proof -
  let ?env = "example_collaborators\<lparr> parseTemplate := (\<lambda>text. Inr []) \<rparr>"
  have a: "roundtripMarkdown ?env ''Hello'' = Inr ''Hello'' \<and>
           parseTemplate ?env ''Hello'' = Inr [] \<and> length ([] :: ast list) \<noteq> 1"
    by (simp add: example_collaborators_def)
  have b: "buildGrammar example_collaborators new_ParserManager ''Hello'' =
      Inr \<lparr> grammar = Some ''grammar'', grammarAst = Some (CompiledGrammar ''grammar''),
            templatizedGrammar = Some ''Hello'', templateAst = Some [Some (Chunk ''Hello'')],
            ergoExpression = False \<rparr>"
    by (simp add: buildGrammar_def example_collaborators_def new_ParserManager_def
        buildGrammarRules.simps buildRules.simps buildRule.simps push_textRule_def
        push_modelRule_def setGrammar_def compileGrammar_def)
  from buildGrammar_rejects_not_one [of ?env "''Hello''" "''Hello''" "[]" new_ParserManager] a
  have "buildGrammar ?env new_ParserManager ''Hello'' = Inl (Error ''Ambiguous parse!'')"
    by blast
  moreover from b have "\<exists>this'. buildGrammar example_collaborators new_ParserManager ''Hello'' = Inr this'"
    by blast
  moreover have "parseTemplate example_collaborators ''Hello'' = Inr [[Some (Chunk ''Hello'')]]"
    by (simp add: example_collaborators_def)
  ultimately show ?thesis by blast
qed

text \<open>
  The claim as written has no parse and an ambiguous parse surfaced as two distinct
  kinds of error.  With no result and with two results \<open>buildGrammar\<close> throws the very
  same error.
\<close>

theorem buildGrammar_same_error_counterexample:
  "buildGrammar (example_collaborators\<lparr> parseTemplate := (\<lambda>text. Inr []) \<rparr>)
     new_ParserManager ''Hello'' =
   buildGrammar (example_collaborators\<lparr> parseTemplate :=
       (\<lambda>text. Inr [[Some (Chunk text)], [Some (Chunk text), None]]) \<rparr>)
     new_ParserManager ''Hello'' \<and>
   buildGrammar (example_collaborators\<lparr> parseTemplate := (\<lambda>text. Inr []) \<rparr>)
     new_ParserManager ''Hello'' = Inl (Error ''Ambiguous parse!'')"
  by (simp add: buildGrammar_def example_collaborators_def)

section \<open>ParserManager.getParser\<close>

lemma setGrammar_grammarAst:
  "setGrammar env this g = Inr this' \<Longrightarrow> grammarAst this' \<noteq> None"
  by (auto simp: setGrammar_def split: sum.splits)

lemma buildGrammar_grammarAst:
  "buildGrammar env this t = Inr this' \<Longrightarrow> grammarAst this' \<noteq> None"
  by (auto simp: buildGrammar_def Let_def setGrammar_def split: sum.splits if_splits prod.splits)

lemma calls_grammarAst:
  "calls env this b \<Longrightarrow> (b \<longleftrightarrow> grammarAst this \<noteq> None)"
proof (induction rule: calls.induct)
  case new
  show ?case by (simp add: new_ParserManager_def)
next
  case (setGrammar_returns this b g this')
  then show ?case by (simp add: setGrammar_grammarAst)
next
  case (setGrammar_throws this b g e)
  then show ?case by simp
next
  case (buildGrammar_returns this b t this')
  then show ?case by (simp add: buildGrammar_grammarAst)
next
  case (buildGrammar_throws this b t e this')
  then show ?case by simp
qed

text \<open>
  C6.  On a ParserManager on which no call of \<open>setGrammar\<close> or \<open>buildGrammar\<close> has
  returned, \<open>getParser\<close> throws the error with the message of the claim.  Once one of
  them has returned, \<open>getParser\<close> returns a reference that no object had before the
  call, to a new parser built from the current compiled grammar, with no input fed; the
  heap keeps the earlier objects unchanged, and a second call returns another reference.
\<close>

theorem getParser_spec:
  "(calls env this False \<longrightarrow>
      getParser this heap =
        Inl (Error ''Must call setGrammar or buildGrammar before calling getParser'')) \<and>
   (calls env this True \<longrightarrow>
      (\<exists>g. grammarAst this = Some g \<and>
           getParser this heap =
             Inr (length heap, heap @ [\<lparr> parser_grammar = g, parser_fed = [] \<rparr>]))) \<and>
   (getParser this heap = Inr (r1, heap1) \<and> getParser this heap1 = Inr (r2, heap2) \<longrightarrow>
      r1 \<noteq> r2 \<and> r1 = length heap \<and> r2 = length heap1 \<and>
      take (length heap) heap2 = heap \<and> heap2 ! r1 = heap2 ! r2)"
proof (intro conjI impI)
  assume "calls env this False"
  from calls_grammarAst [OF this] have "grammarAst this = None" by simp
  then show "getParser this heap =
      Inl (Error ''Must call setGrammar or buildGrammar before calling getParser'')"
    by (simp add: getParser_def)
next
  assume "calls env this True"
  from calls_grammarAst [OF this] obtain g where "grammarAst this = Some g" by auto
  then show "\<exists>g. grammarAst this = Some g \<and>
           getParser this heap =
             Inr (length heap, heap @ [\<lparr> parser_grammar = g, parser_fed = [] \<rparr>])"
    by (simp add: getParser_def)
next
  assume a: "getParser this heap = Inr (r1, heap1) \<and> getParser this heap1 = Inr (r2, heap2)"
  then obtain g where g: "grammarAst this = Some g"
    by (cases "grammarAst this") (auto simp: getParser_def)
  with a have "r1 = length heap" and "heap1 = heap @ [\<lparr> parser_grammar = g, parser_fed = [] \<rparr>]"
    and "r2 = length heap1" and "heap2 = heap1 @ [\<lparr> parser_grammar = g, parser_fed = [] \<rparr>]"
    by (auto simp: getParser_def)
  then show "r1 \<noteq> r2" and "r1 = length heap" and "r2 = length heap1"
    and "take (length heap) heap2 = heap" and "heap2 ! r1 = heap2 ! r2"
    by (simp_all add: nth_append)
qed

theorem getParser_spec_witness:
  "calls example_collaborators new_ParserManager False \<and>
   getParser new_ParserManager [] =
     Inl (Error ''Must call setGrammar or buildGrammar before calling getParser'') \<and>
   (\<exists>this. setGrammar example_collaborators new_ParserManager ''main -> x'' = Inr this \<and>
      calls example_collaborators this True \<and>
      getParser this [] =
        Inr (0, [\<lparr> parser_grammar = CompiledGrammar ''main -> x'', parser_fed = [] \<rparr>]) \<and>
      getParser this [\<lparr> parser_grammar = CompiledGrammar ''main -> x'', parser_fed = [] \<rparr>] =
        Inr (1, [\<lparr> parser_grammar = CompiledGrammar ''main -> x'', parser_fed = [] \<rparr>,
                 \<lparr> parser_grammar = CompiledGrammar ''main -> x'', parser_fed = [] \<rparr>]))"
proof -
  let ?pm = "new_ParserManager\<lparr> grammarAst := Some (CompiledGrammar ''main -> x''),
                                  grammar := Some ''main -> x'' \<rparr>"
  let ?p = "\<lparr> parser_grammar = CompiledGrammar ''main -> x'', parser_fed = [] \<rparr>"
  have c0: "calls example_collaborators new_ParserManager False"
    by (rule calls.new)
  have s: "setGrammar example_collaborators new_ParserManager ''main -> x'' = Inr ?pm"
    by (simp add: setGrammar_def compileGrammar_def example_collaborators_def)
  have c1: "calls example_collaborators ?pm True"
    by (rule calls.setGrammar_returns [OF c0 s])
  have g: "grammarAst ?pm = Some (CompiledGrammar ''main -> x'')"
    by simp
  from getParser_spec [of example_collaborators new_ParserManager "[]"] c0
  have r0: "getParser new_ParserManager [] =
     Inl (Error ''Must call setGrammar or buildGrammar before calling getParser'')"
    by (rule conjunct1 [THEN mp])
  from getParser_spec [of example_collaborators ?pm "[]"]
  have "calls example_collaborators ?pm True \<longrightarrow>
      (\<exists>g. grammarAst ?pm = Some g \<and>
           getParser ?pm [] = Inr (length ([] :: nearleyParser list),
             [] @ [\<lparr> parser_grammar = g, parser_fed = [] \<rparr>]))"
    by (rule conjunct2 [THEN conjunct1])
  with c1 obtain g1 where "grammarAst ?pm = Some g1"
    and "getParser ?pm [] = Inr (length ([] :: nearleyParser list),
           [] @ [\<lparr> parser_grammar = g1, parser_fed = [] \<rparr>])"
    by blast
  with g have r1: "getParser ?pm [] = Inr (0, [?p])"
    by simp
  from getParser_spec [of example_collaborators ?pm "[?p]"]
  have "calls example_collaborators ?pm True \<longrightarrow>
      (\<exists>g. grammarAst ?pm = Some g \<and>
           getParser ?pm [?p] = Inr (length [?p],
             [?p] @ [\<lparr> parser_grammar = g, parser_fed = [] \<rparr>]))"
    by (rule conjunct2 [THEN conjunct1])
  with c1 obtain g2 where "grammarAst ?pm = Some g2"
    and "getParser ?pm [?p] = Inr (length [?p], [?p] @ [\<lparr> parser_grammar = g2, parser_fed = [] \<rparr>])"
    by blast
  with g have r2: "getParser ?pm [?p] = Inr (1, [?p, ?p])"
    by simp
  from c1 s r1 r2 have "\<exists>this. setGrammar example_collaborators new_ParserManager ''main -> x'' = Inr this \<and>
      calls example_collaborators this True \<and>
      getParser this [] = Inr (0, [?p]) \<and>
      getParser this [?p] = Inr (1, [?p, ?p])"
    by (intro exI [of _ ?pm] conjI)
  with c0 r0 show ?thesis by (intro conjI)
qed

section \<open>Conditional bindings\<close>

lemma getProperty_declared:
  "fieldName element = Some fn \<Longrightarrow>
   classDeclaration_getProperty tm (tvalue fn) = Some property \<Longrightarrow>
   getProperty tm element = Inr property"
  by (simp add: getProperty_def)

lemma throwTemplateExceptionForElement_binding:
  "fieldName element = Some fn \<Longrightarrow> evalue element = None \<Longrightarrow>
   throwTemplateExceptionForElement message element =
     TemplateException message
       \<lparr> start_line = line fn, start_column = col fn, end_line = line fn,
         end_endColumn = col fn + 1 \<rparr>
       ''text/grammar.tem.md'' ''cicero-core''"
  by (simp add: throwTemplateExceptionForElement_def Let_def)



section \<open>List bindings\<close>

lemmas compiler_simps =
  buildGrammarRules.simps buildRules.simps buildRule.simps handleBinding.simps
  containerRule_def push_textRule_def push_modelRule_def getProperty_def
  classDeclaration_getProperty_def bindingRule_def suffixOf_def listActionText_def idAction_def
  formattedBinding_def chooseFormatParser_def addFormatRule_def
  throwTemplateExceptionForElement_def cleanChunk_def replace_all_def findFirstBinding_def
  bindsProperty_def decimal.simps string_of_nat_def string_of_int_def digit_char_def
  newline_def dquote_def backslash_def Let_def

lemmas example_simps =
  example_collaborators_def example_model_def example_item_def example_property_def
  example_token_def example_parts_def new_ParserManager_def

lemma tr_prefix_containerRule: "tr_prefix (containerRule env a tm pfx p) = pfx"
  by (simp add: containerRule_def)

lemma listAction_concat: "listAction [a, JArr rest] = Inr (JArr (a # rest))"
  by (simp add: listAction_def js_concat_def array_index_def)

text \<open>
  C4, as the code has it.  Take a list binding whose field is a declared property of a
  type other than \<open>DateTime\<close>, and suppose \<open>handleBinding\<close> returns.  Then it has
  appended, in this order, a container rule named \<open>field + 'First'\<close> and a container
  rule named \<open>field\<close> (each possibly followed by the container rules of templates nested
  deeper); the last rule it has appended is the rule of the node, whose one symbol
  sequence is \<open>fieldFirst field\<close> with the cardinality suffix, the list action and the
  provenance comment; and the list action applied to a first value \<open>a\<close> and the array
  \<open>rest\<close> yields the array \<open>a # rest\<close>: \<open>[a, b, c]\<close> for \<open>a\<close> and \<open>[b, c]\<close>.
\<close>

theorem handleBinding_list:
  assumes "etype element = ''UListBinding'' \<or> etype element = ''OListBinding''
             \<or> etype element = ''JoinBinding''"
    and "fieldName element = Some fn"
    and "classDeclaration_getProperty tm (tvalue fn) = Some property"
    and "getType property \<noteq> ''DateTime''"
    and "handleBinding env this tm parts' inputRule element = Inr (this', parts'', element')"
  shows "(\<exists>c1 ts1 c2 ts2 ms.
            textRules parts'' = textRules parts' @ c1 # ts1 @ c2 # ts2 \<and>
            tr_prefix c1 = tvalue fn @ ''First'' \<and> tr_prefix c2 = tvalue fn \<and>
            modelRules parts'' = modelRules parts' @ ms @
              [\<lparr> mr_prefix = inputRule,
                 mr_symbols = [tvalue fn @ ''First'' @ '' '' @ tvalue fn @ suffixOf property
                               @ '' '' @ listActionText (tvalue fn) @ '' # '' @ tvalue fn] \<rparr>]) \<and>
         listAction [a, JArr rest] = Inr (JArr (a # rest)) \<and>
         listAction [a, JArr [b, c]] = Inr (JArr [a, b, c])"
proof -
  have pr: "getProperty tm element = Inr property"
    using assms(2,3) by (rule getProperty_declared)
  have nf: "etype element \<noteq> ''FormattedBinding''"
    and nc: "\<not> (etype element = ''ClauseBinding'' \<or> etype element = ''WithBinding'')"
    using assms(1) by auto
  from assms(5) have "\<exists>c1 ts1 c2 ts2 ms.
            textRules parts'' = textRules parts' @ c1 # ts1 @ c2 # ts2 \<and>
            tr_prefix c1 = tvalue fn @ ''First'' \<and> tr_prefix c2 = tvalue fn \<and>
            modelRules parts'' = modelRules parts' @ ms @
              [\<lparr> mr_prefix = inputRule,
                 mr_symbols = [tvalue fn @ ''First'' @ '' '' @ tvalue fn @ suffixOf property
                               @ '' '' @ listActionText (tvalue fn) @ '' # '' @ tvalue fn] \<rparr>]"
  proof (cases rule: handleBinding_Inr)
    case (formatted fn' property' parts1 type')
    with pr nf assms(4) show ?thesis by simp
  next
    case (nested fn' property' t0 ntm parts1 t1)
    with nc show ?thesis by simp
  next
    case (plain fn' property')
    with assms(1) show ?thesis by simp
  next
    case (list fn' property' ntm t0 sep ft this1 parts1 t1 nt parts2 t2)
    from list(1) assms(2) have fn': "fn' = fn" by simp
    from list(2) pr have property': "property' = property" by simp
    note b1 = list(9) [unfolded fn'] and b2 = list(11) [unfolded fn']
    from buildGrammarRules_container [OF b1] obtain ts1 where
      t1: "textRules parts1 = textRules parts'
             @ containerRule env ft ntm (tvalue fn @ ''First'') parts' # ts1"
      by blast
    from buildGrammarRules_container [OF b2] obtain ts2 where
      t2: "textRules parts2 = textRules parts1
             @ containerRule env nt ntm (tvalue fn) parts1 # ts2"
      by blast
    from compiler_grows(1) [OF b1] compiler_grows(1) [OF b2]
    obtain ms where ms: "modelRules parts2 = modelRules parts' @ ms"
      by (auto simp: grows_def)
    have rule: "bindingRule inputRule element property (Some (tvalue fn @ ''First''))
                  (tvalue fn) (listActionText (tvalue fn)) (tvalue fn) =
        \<lparr> mr_prefix = inputRule,
          mr_symbols = [tvalue fn @ ''First'' @ '' '' @ tvalue fn @ suffixOf property
                        @ '' '' @ listActionText (tvalue fn) @ '' # '' @ tvalue fn] \<rparr>"
      using assms(1) by (auto simp: bindingRule_def)
    from list(12) have p'': "parts'' = push_modelRule parts2
         (bindingRule inputRule element property (Some (tvalue fn @ ''First''))
            (tvalue fn) (listActionText (tvalue fn)) (tvalue fn))"
      by (simp add: fn' property')
    have "textRules parts'' = textRules parts'
            @ containerRule env ft ntm (tvalue fn @ ''First'') parts' # ts1
            @ containerRule env nt ntm (tvalue fn) parts1 # ts2"
      using p'' t1 t2 by (simp add: push_modelRule_def)
    moreover have "modelRules parts'' = modelRules parts' @ ms @
              [\<lparr> mr_prefix = inputRule,
                 mr_symbols = [tvalue fn @ ''First'' @ '' '' @ tvalue fn @ suffixOf property
                               @ '' '' @ listActionText (tvalue fn) @ '' # '' @ tvalue fn] \<rparr>]"
      using p'' ms rule by (simp add: push_modelRule_def)
    ultimately show ?thesis
      using tr_prefix_containerRule by blast
  qed
  then show ?thesis
    using listAction_concat [of a rest] listAction_concat [of a "[b, c]"] by blast
qed

theorem handleBinding_list_witness:
  "\<exists>this' parts'' element'.
     handleBinding example_collaborators new_ParserManager example_model example_parts ''rule1''
       (UListBinding (example_token ''items'')
          [Some (Chunk ''item ''), Some (Binding (example_token ''name'') None)])
       = Inr (this', parts'', element') \<and>
     (\<exists>c1 ts1 c2 ts2 ms.
        textRules parts'' = textRules example_parts @ c1 # ts1 @ c2 # ts2 \<and>
        tr_prefix c1 = ''itemsFirst'' \<and> tr_prefix c2 = ''items'' \<and>
        modelRules parts'' = modelRules example_parts @ ms @
          [\<lparr> mr_prefix = ''rule1'',
             mr_symbols = [''itemsFirst items:* '' @ listActionText ''items'' @ '' # items''] \<rparr>])"
proof -
  let ?e = "UListBinding (example_token ''items'')
          [Some (Chunk ''item ''), Some (Binding (example_token ''name'') None)]"
  have h1: "etype ?e = ''UListBinding'' \<or> etype ?e = ''OListBinding'' \<or> etype ?e = ''JoinBinding''"
    by simp
  have h2: "fieldName ?e = Some (example_token ''items'')"
    by simp
  have h3: "classDeclaration_getProperty example_model (tvalue (example_token ''items'')) =
      Some (example_property ''items'' ''Item'' ''org.example.Item'' True)"
    by (simp add: classDeclaration_getProperty_def example_simps)
  have h4: "getType (example_property ''items'' ''Item'' ''org.example.Item'' True) \<noteq> ''DateTime''"
    by (simp add: example_property_def)
  have "\<exists>r. handleBinding example_collaborators new_ParserManager example_model example_parts
      ''rule1'' ?e = Inr r"
    by (simp add: compiler_simps example_simps)
  then obtain this' parts'' element' where
    h5: "handleBinding example_collaborators new_ParserManager example_model example_parts
      ''rule1'' ?e = Inr (this', parts'', element')"
    by auto
  from handleBinding_list [OF h1 h2 h3 h4 h5]
  have "\<exists>c1 ts1 c2 ts2 ms.
        textRules parts'' = textRules example_parts @ c1 # ts1 @ c2 # ts2 \<and>
        tr_prefix c1 = ''itemsFirst'' \<and> tr_prefix c2 = ''items'' \<and>
        modelRules parts'' = modelRules example_parts @ ms @
          [\<lparr> mr_prefix = ''rule1'',
             mr_symbols = [''itemsFirst items:* '' @ listActionText ''items'' @ '' # items''] \<rparr>]"
    by (simp add: example_token_def example_property_def suffixOf_def)
  with h5 show ?thesis by blast
qed

text \<open>
  The claim as written speaks of every list binding.  A list binding over a property of
  type \<open>DateTime\<close> takes the formatted branch of \<open>handleBinding\<close>: no container rule is
  emitted, and the rule of the node starts with \<open>null\<close>, the text of the variable
  \<open>firstType\<close> that only the list branch sets.
\<close>

theorem handleBinding_list_DateTime_counterexample:
  "\<exists>this' parts'' element'.
     handleBinding example_collaborators new_ParserManager example_model example_parts ''rule0''
       (UListBinding (example_token ''dates'') [Some (Chunk ''on '')])
       = Inr (this', parts'', element') \<and>
     textRules parts'' = [] \<and>
     last (modelRules parts'') =
       \<lparr> mr_prefix = ''rule0'', mr_symbols = [''null DateTimeFormat:* {% id %} # dates''] \<rparr>"
  by (simp add: compiler_simps example_simps)

section \<open>Bindings to undeclared fields\<close>

lemma buildRules_append:
  "buildRules env this tm prefix index (pre @ rest) parts' =
     (case buildRules env this tm prefix index pre parts' of
        Inl e \<Rightarrow> Inl e
      | Inr (this1, parts1, pre') \<Rightarrow>
          (case buildRules env this1 tm prefix (index + length pre) rest parts1 of
             Inl e \<Rightarrow> Inl e
           | Inr (this2, parts2, rest') \<Rightarrow> Inr (this2, parts2, pre' @ rest')))"
proof (induction pre arbitrary: index this parts')
  case Nil
  show ?case by (simp add: buildRules_Nil split: sum.splits)
next
  case (Cons element pre)
  show ?case
  proof (cases "keptElement element")
    case False
    then show ?thesis
      by (simp add: buildRules_skip Cons.IH split: sum.splits)
  next
    case True
    then obtain el where "element = Some el" by (auto dest: keptElement_Some)
    with True show ?thesis
      by (simp add: buildRules_keep Cons.IH split: sum.splits)
  qed
qed

lemma bindingField_kept: "bindingField b = Some fn \<Longrightarrow> keptElement (Some b)"
  by (cases b) simp_all

lemma bindingField_fieldName:
  "bindingField b = Some fn \<Longrightarrow> fieldName b = Some fn \<and> evalue b = None"
  by (cases b) simp_all

lemma getProperty_undeclared:
  assumes "bindingField b = Some fn"
    and "classDeclaration_getProperty tm (tvalue fn) = None"
  shows "getProperty tm b =
     Inl (TemplateException
            (''Template references a property '' @ [CHR 0x27] @ tvalue fn @ [CHR 0x27]
             @ '' that is not declared in the template model ''
             @ [CHR 0x27] @ getFullyQualifiedName tm @ [CHR 0x27])
            \<lparr> start_line = line fn, start_column = col fn, end_line = line fn,
              end_endColumn = col fn + 1 \<rparr>
            ''text/grammar.tem.md'' ''cicero-core'')"
  using assms bindingField_fieldName [OF assms(1)]
  by (simp add: getProperty_def throwTemplateExceptionForElement_binding)

lemma buildRule_undeclared:
  assumes "bindingField b = Some fn"
    and "classDeclaration_getProperty tm (tvalue fn) = None"
  shows "buildRule env this tm parts' rule b =
     Inl (TemplateException
            (''Template references a property '' @ [CHR 0x27] @ tvalue fn @ [CHR 0x27]
             @ '' that is not declared in the template model ''
             @ [CHR 0x27] @ getFullyQualifiedName tm @ [CHR 0x27])
            \<lparr> start_line = line fn, start_column = col fn, end_line = line fn,
              end_endColumn = col fn + 1 \<rparr>
            ''text/grammar.tem.md'' ''cicero-core'')"
proof (cases "etype b = ''IfBinding'' \<or> etype b = ''IfElseBinding''")
  case True
  with getProperty_undeclared [OF assms] show ?thesis
    by (subst buildRule.simps) auto
next
  case False
  with assms(1) have h: "etype b \<in> set [''FormattedBinding'', ''Binding'', ''ClauseBinding'',
                ''WithBinding'', ''UListBinding'', ''OListBinding'', ''JoinBinding'']"
    by (cases b) simp_all
  from getProperty_undeclared [OF assms] bindingField_fieldName [OF assms(1)]
  have "handleBinding env this tm parts' rule b =
     Inl (TemplateException
            (''Template references a property '' @ [CHR 0x27] @ tvalue fn @ [CHR 0x27]
             @ '' that is not declared in the template model ''
             @ [CHR 0x27] @ getFullyQualifiedName tm @ [CHR 0x27])
            \<lparr> start_line = line fn, start_column = col fn, end_line = line fn,
              end_endColumn = col fn + 1 \<rparr>
            ''text/grammar.tem.md'' ''cicero-core'')"
    by (subst handleBinding.simps) simp
  with h show ?thesis by (simp only: buildRule_handleBinding)
qed

lemma buildRules_undeclared:
  assumes "bindingField b = Some fn"
    and "classDeclaration_getProperty tm (tvalue fn) = None"
  shows "buildRules env this tm prefix index (Some b # post) parts' =
     Inl (TemplateException
            (''Template references a property '' @ [CHR 0x27] @ tvalue fn @ [CHR 0x27]
             @ '' that is not declared in the template model ''
             @ [CHR 0x27] @ getFullyQualifiedName tm @ [CHR 0x27])
            \<lparr> start_line = line fn, start_column = col fn, end_line = line fn,
              end_endColumn = col fn + 1 \<rparr>
            ''text/grammar.tem.md'' ''cicero-core'')"
  using bindingField_kept [OF assms(1)] buildRule_undeclared [OF assms]
  by (simp add: buildRules_keep)

text \<open>
  C2, as the code has it.  Let a level of the AST hold, after the elements \<open>pre\<close>, a
  binding whose field is not a declared property of the template model of the level.
  Compiling the level never returns.  The errors are those of the nodes in document
  order: when the nodes before the binding compile, the error thrown is the
  \<open>TemplateException\<close> whose message names the field and the fully-qualified name of the
  model, located at the line and column of the field-name token.
\<close>

theorem buildGrammarRules_undeclared:
  assumes "bindingField b = Some fn"
    and "classDeclaration_getProperty tm (tvalue fn) = None"
  shows "(\<exists>e. buildGrammarRules env this (pre @ Some b # post) tm prefix parts' = Inl e) \<and>
         ((\<forall>this0 parts0. \<exists>r. buildRules env this0 tm prefix 0 pre parts0 = Inr r) \<longrightarrow>
          buildGrammarRules env this (pre @ Some b # post) tm prefix parts' =
            Inl (TemplateException
                   (''Template references a property '' @ [CHR 0x27] @ tvalue fn @ [CHR 0x27]
                    @ '' that is not declared in the template model ''
                    @ [CHR 0x27] @ getFullyQualifiedName tm @ [CHR 0x27])
                   \<lparr> start_line = line fn, start_column = col fn, end_line = line fn,
                     end_endColumn = col fn + 1 \<rparr>
                   ''text/grammar.tem.md'' ''cicero-core''))"
proof -
  let ?p = "push_textRule parts' (containerRule env (pre @ Some b # post) tm prefix parts')"
  have eq: "buildGrammarRules env this (pre @ Some b # post) tm prefix parts' =
     (case buildRules env this tm prefix 0 pre ?p of
        Inl e \<Rightarrow> Inl e
      | Inr (this1, parts1, pre') \<Rightarrow>
          (case buildRules env this1 tm prefix (0 + length pre) (Some b # post) parts1 of
             Inl e \<Rightarrow> Inl e
           | Inr (this2, parts2, rest') \<Rightarrow> Inr (this2, parts2, pre' @ rest')))"
    by (simp only: buildGrammarRules.simps buildRules_append)
  have "\<exists>e. buildGrammarRules env this (pre @ Some b # post) tm prefix parts' = Inl e"
    unfolding eq
    by (cases "buildRules env this tm prefix 0 pre ?p")
       (auto simp: buildRules_undeclared [OF assms])
  moreover have "buildGrammarRules env this (pre @ Some b # post) tm prefix parts' =
            Inl (TemplateException
                   (''Template references a property '' @ [CHR 0x27] @ tvalue fn @ [CHR 0x27]
                    @ '' that is not declared in the template model ''
                    @ [CHR 0x27] @ getFullyQualifiedName tm @ [CHR 0x27])
                   \<lparr> start_line = line fn, start_column = col fn, end_line = line fn,
                     end_endColumn = col fn + 1 \<rparr>
                   ''text/grammar.tem.md'' ''cicero-core'')"
    if "\<forall>this0 parts0. \<exists>r. buildRules env this0 tm prefix 0 pre parts0 = Inr r"
  proof -
    from that obtain r where "buildRules env this tm prefix 0 pre ?p = Inr r" by blast
    then show ?thesis
      unfolding eq by (cases r) (simp add: buildRules_undeclared [OF assms])
  qed
  ultimately show ?thesis by blast
qed

theorem buildGrammarRules_undeclared_witness:
  "bindingField (Binding (example_token ''currency'') None) = Some (example_token ''currency'') \<and>
   classDeclaration_getProperty example_model ''currency'' = None \<and>
   buildGrammarRules example_collaborators new_ParserManager
     ([Some (Chunk ''Pay ''), Some (Binding (example_token ''amount'') None), Some (Chunk '' ''),
       None]
      @ Some (Binding (example_token ''currency'') None) # [Some (LastChunk ''.'')])
     example_model ''rule'' example_parts =
     Inl (TemplateException
            (''Template references a property '' @ [CHR 0x27] @ ''currency'' @ [CHR 0x27]
             @ '' that is not declared in the template model ''
             @ [CHR 0x27] @ ''org.example.Clause'' @ [CHR 0x27])
            \<lparr> start_line = 3, start_column = 7, end_line = 3, end_endColumn = 8 \<rparr>
            ''text/grammar.tem.md'' ''cicero-core'')"
proof -
  let ?pre = "[Some (Chunk ''Pay ''), Some (Binding (example_token ''amount'') None),
               Some (Chunk '' ''), None]"
  have h1: "bindingField (Binding (example_token ''currency'') None) =
      Some (example_token ''currency'')"
    by simp
  have h2: "classDeclaration_getProperty example_model (tvalue (example_token ''currency'')) = None"
    by (simp add: classDeclaration_getProperty_def example_simps)
  have h3: "\<forall>this0 parts0. \<exists>r. buildRules example_collaborators this0 example_model ''rule'' 0
      ?pre parts0 = Inr r"
    by (simp add: compiler_simps example_simps)
  from buildGrammarRules_undeclared [OF h1 h2, of example_collaborators new_ParserManager ?pre
      "[Some (LastChunk ''.'')]" "''rule''" example_parts] h3
  have "buildGrammarRules example_collaborators new_ParserManager
     (?pre @ Some (Binding (example_token ''currency'') None) # [Some (LastChunk ''.'')])
     example_model ''rule'' example_parts =
     Inl (TemplateException
            (''Template references a property '' @ [CHR 0x27] @ ''currency'' @ [CHR 0x27]
             @ '' that is not declared in the template model ''
             @ [CHR 0x27] @ ''org.example.Clause'' @ [CHR 0x27])
            \<lparr> start_line = 3, start_column = 7, end_line = 3, end_endColumn = 8 \<rparr>
            ''text/grammar.tem.md'' ''cicero-core'')"
    by (simp add: example_token_def example_model_def)
  with h1 h2 show ?thesis by (simp add: example_token_def)
qed

text \<open>
  The claim as written promises that \<open>TemplateException\<close> for every AST that contains
  such a binding.  In the first AST below a conditional on a property that is not Boolean
  comes first, and the exception thrown is about that property: its message names
  neither the undeclared field nor the model.  In the second a list block without leading
  text comes first, and compilation throws the plain \<open>Error\<close> of \<open>adjustListBlock\<close>,
  which carries no location.
\<close>

theorem buildGrammarRules_undeclared_counterexample:
  "bindingField (Binding (example_token ''currency'') None) = Some (example_token ''currency'') \<and>
   classDeclaration_getProperty example_model ''currency'' = None \<and>
   buildGrammarRules example_collaborators new_ParserManager
     [Some (IfBinding (example_token ''amount'') (example_token ''yes'')),
      Some (Binding (example_token ''currency'') None)]
     example_model ''rule'' example_parts =
     Inl (TemplateException
            ''An if block can only be used with a boolean property. Property amount has type Integer''
            \<lparr> start_line = 3, start_column = 7, end_line = 3, end_endColumn = 8 \<rparr>
            ''text/grammar.tem.md'' ''cicero-core'') \<and>
   buildGrammarRules example_collaborators new_ParserManager
     [Some (UListBinding (example_token ''items'') [Some (Binding (example_token ''name'') None)]),
      Some (Binding (example_token ''currency'') None)]
     example_model ''rule'' example_parts =
     Inl (Error ''List block in template should contain text'')"
  by (simp add: compiler_simps example_simps)

section \<open>The bindings of the container rule\<close>

text \<open>An element binds a property when it is one of the nine kinds of binding and its
  field name is the name of the property.\<close>

lemma bindsProperty_bindingField:
  "bindingField element = Some fn \<Longrightarrow>
   bindsProperty name (Some element) = (tvalue fn = name)"
  by (cases element) (simp_all add: bindsProperty_def)

lemma bindsProperty_None: "bindsProperty name None = False"
  by (simp add: bindsProperty_def)

lemma findFirstBinding_from_none:
  "\<forall>j<length xs. \<not> bindsProperty name (xs ! j) \<Longrightarrow> findFirstBinding_from n name xs = - 1"
proof (induction xs arbitrary: n)
  case Nil
  show ?case by simp
next
  case (Cons x xs)
  from Cons.prems have "\<not> bindsProperty name ((x # xs) ! 0)" by blast
  then have nx: "\<not> bindsProperty name x" by simp
  have "\<forall>j<length xs. \<not> bindsProperty name (xs ! j)"
  proof (intro allI impI)
    fix j assume "j < length xs"
    then have "Suc j < length (x # xs)" by simp
    with Cons.prems have "\<not> bindsProperty name ((x # xs) ! Suc j)" by blast
    then show "\<not> bindsProperty name (xs ! j)" by simp
  qed
  from Cons.IH [OF this] nx show ?case by simp
qed

lemma findFirstBinding_from_first:
  "k < length xs \<Longrightarrow> bindsProperty name (xs ! k) \<Longrightarrow>
   \<forall>j<k. \<not> bindsProperty name (xs ! j) \<Longrightarrow>
   findFirstBinding_from n name xs = int (n + k)"
proof (induction xs arbitrary: n k)
  case Nil
  then show ?case by simp
next
  case (Cons x xs)
  show ?case
  proof (cases k)
    case 0
    with Cons.prems(2) have "bindsProperty name x" by simp
    with 0 show ?thesis by simp
  next
    case (Suc k')
    have "0 < k" using Suc by simp
    with Cons.prems(3) have "\<not> bindsProperty name ((x # xs) ! 0)" by blast
    then have nx: "\<not> bindsProperty name x" by simp
    from Suc Cons.prems(1) have a: "k' < length xs" by simp
    from Suc Cons.prems(2) have b: "bindsProperty name (xs ! k')" by simp
    have c: "\<forall>j<k'. \<not> bindsProperty name (xs ! j)"
    proof (intro allI impI)
      fix j assume "j < k'"
      then have "Suc j < k" using Suc by simp
      with Cons.prems(3) have "\<not> bindsProperty name ((x # xs) ! Suc j)" by blast
      then show "\<not> bindsProperty name (xs ! j)" by simp
    qed
    from Cons.IH [OF a b c, of "Suc n"] nx Suc show ?thesis by simp
  qed
qed

lemma findFirstBinding_bound:
  assumes "\<exists>n<length xs. bindsProperty name (xs ! n)"
  shows "findFirstBinding name xs =
           int (LEAST n. n < length xs \<and> bindsProperty name (xs ! n))"
proof -
  define k where "k = (LEAST n. n < length xs \<and> bindsProperty name (xs ! n))"
  from assms obtain n where n: "n < length xs \<and> bindsProperty name (xs ! n)" by blast
  have l: "k < length xs \<and> bindsProperty name (xs ! k)"
    unfolding k_def using n by (rule LeastI)
  have m: "\<forall>j<k. \<not> bindsProperty name (xs ! j)"
  proof (intro allI impI)
    fix j assume j: "j < k"
    then have "\<not> (j < length xs \<and> bindsProperty name (xs ! j))"
      unfolding k_def by (rule not_less_Least)
    moreover from j l have "j < length xs" by simp
    ultimately show "\<not> bindsProperty name (xs ! j)" by simp
  qed
  from l have l1: "k < length xs" and l2: "bindsProperty name (xs ! k)" by simp_all
  have "findFirstBinding_from 0 name xs = int (0 + k)"
    using l1 l2 m by (rule findFirstBinding_from_first)
  then show ?thesis
    unfolding k_def by (simp add: findFirstBinding_def)
qed

lemma findFirstBinding_unbound:
  "\<not> (\<exists>n<length xs. bindsProperty name (xs ! n)) \<Longrightarrow> findFirstBinding name xs = - 1"
  by (simp add: findFirstBinding_def findFirstBinding_from_none)

lemma string_of_int_nat: "string_of_int (int k) = string_of_nat k"
  by (simp add: string_of_int_def)

lemma properties_from_spec:
  "properties_from index len prefix data' ps =
     map (\<lambda>(i, p). getName p @ '' : '' @ prefix
            @ string_of_nat (LEAST n. n < length data' \<and> bindsProperty (getName p) (data' ! n))
            @ (if i + 1 < len then '','' else ''''))
       (filter (\<lambda>(i, p). \<exists>n<length data'. bindsProperty (getName p) (data' ! n))
          (enumerate index ps))"
proof (induction ps arbitrary: index)
  case Nil
  show ?case by simp
next
  case (Cons p ps)
  have sep: "(int index < int len - 1) = (index + 1 < len)" by auto
  show ?case
  proof (cases "\<exists>n<length data'. bindsProperty (getName p) (data' ! n)")
    case True
    from findFirstBinding_bound [OF True]
    have f: "findFirstBinding (getName p) data' =
        int (LEAST n. n < length data' \<and> bindsProperty (getName p) (data' ! n))" .
    from True show ?thesis
      by (simp add: f string_of_int_nat Cons.IH sep del: One_nat_def)
  next
    case False
    from findFirstBinding_unbound [OF False] False show ?thesis
      by (simp add: Cons.IH)
  qed
qed

lemma buildRules_Inl:
  "buildRules env this tm prefix index elements parts' = Inl e \<Longrightarrow>
   \<exists>i el this1 parts1. i < length elements \<and> elements ! i = Some el \<and>
      buildRule env this1 tm parts1 (prefix @ string_of_nat (index + i)) el = Inl e"
proof (induction elements arbitrary: index this parts')
  case Nil
  then show ?case by (simp add: buildRules_Nil)
next
  case (Cons element elements)
  show ?case
  proof (cases "keptElement element")
    case False
    with Cons.prems have "buildRules env this tm prefix (Suc index) elements parts' = Inl e"
      by (auto simp: buildRules_skip split: sum.splits)
    from Cons.IH [OF this] obtain i el this1 parts1 where
      "i < length elements" and "elements ! i = Some el"
      and "buildRule env this1 tm parts1 (prefix @ string_of_nat (Suc index + i)) el = Inl e"
      by blast
    then have "Suc i < length (element # elements) \<and> (element # elements) ! Suc i = Some el \<and>
      buildRule env this1 tm parts1 (prefix @ string_of_nat (index + Suc i)) el = Inl e"
      by simp
    then show ?thesis by blast
  next
    case True
    then obtain el where el: "element = Some el" by (auto dest: keptElement_Some)
    show ?thesis
    proof (cases "buildRule env this tm parts' (prefix @ string_of_nat index) el")
      case (Inl e')
      with True el Cons.prems have "e' = e" by (simp add: buildRules_keep)
      with Inl el have "0 < length (element # elements) \<and> (element # elements) ! 0 = Some el \<and>
        buildRule env this tm parts' (prefix @ string_of_nat (index + 0)) el = Inl e"
        by simp
      then show ?thesis by blast
    next
      case (Inr r)
      obtain this1 parts1 el1 where r: "r = (this1, parts1, el1)" by (cases r)
      with Inr True el Cons.prems
      have "buildRules env this1 tm prefix (Suc index) elements parts1 = Inl e"
        by (auto simp: buildRules_keep split: sum.splits)
      from Cons.IH [OF this] obtain i el' this2 parts2 where
        "i < length elements" and "elements ! i = Some el'"
        and "buildRule env this2 tm parts2 (prefix @ string_of_nat (Suc index + i)) el' = Inl e"
        by blast
      then have "Suc i < length (element # elements) \<and> (element # elements) ! Suc i = Some el' \<and>
        buildRule env this2 tm parts2 (prefix @ string_of_nat (index + Suc i)) el' = Inl e"
        by simp
      then show ?thesis by blast
    qed
  qed
qed

text \<open>
  C1.  When \<open>buildGrammarRules\<close> returns, the container rule of the level is the rule it
  has appended first.  Its list of bindings has one entry for each property of the
  template model that some element of the level binds, in the order of the properties,
  and the entry points at the first such element: the least index \<open>n\<close> with
  \<open>bindsProperty name (ast ! n)\<close>.  A property that no element binds has no entry.  It
  raises no error either: when \<open>buildGrammarRules\<close> throws, the error is the one thrown by
  the rule of one of the elements of the level.
\<close>

theorem buildGrammarRules_binds_first:
  "(buildGrammarRules env this ast' tm prefix parts' = Inr (this', parts'', ast'') \<longrightarrow>
      tr_prefix (textRules parts'' ! length (textRules parts')) = prefix \<and>
      tr_class (textRules parts'' ! length (textRules parts')) = getFullyQualifiedName tm \<and>
      tr_properties (textRules parts'' ! length (textRules parts')) =
        map (\<lambda>(index, property). getName property @ '' : '' @ prefix
               @ string_of_nat
                   (LEAST n. n < length ast' \<and> bindsProperty (getName property) (ast' ! n))
               @ (if index + 1 < length (getProperties tm) then '','' else ''''))
          (filter (\<lambda>(index, property).
                     \<exists>n<length ast'. bindsProperty (getName property) (ast' ! n))
             (enumerate 0 (getProperties tm)))) \<and>
   (buildGrammarRules env this ast' tm prefix parts' = Inl e \<longrightarrow>
      (\<exists>index element this1 parts1. index < length ast' \<and> ast' ! index = Some element \<and>
         buildRule env this1 tm parts1 (prefix @ string_of_nat index) element = Inl e))"
proof (intro conjI impI)
  assume ok: "buildGrammarRules env this ast' tm prefix parts' = Inr (this', parts'', ast'')"
  from buildGrammarRules_container [OF ok] obtain ts where
    "textRules parts'' = textRules parts' @ containerRule env ast' tm prefix parts' # ts"
    by blast
  then have c: "textRules parts'' ! length (textRules parts') =
      containerRule env ast' tm prefix parts'"
    by simp
  show "tr_prefix (textRules parts'' ! length (textRules parts')) = prefix"
    and "tr_class (textRules parts'' ! length (textRules parts')) = getFullyQualifiedName tm"
    unfolding c by (simp_all add: containerRule_def)
  show "tr_properties (textRules parts'' ! length (textRules parts')) =
        map (\<lambda>(index, property). getName property @ '' : '' @ prefix
               @ string_of_nat
                   (LEAST n. n < length ast' \<and> bindsProperty (getName property) (ast' ! n))
               @ (if index + 1 < length (getProperties tm) then '','' else ''''))
          (filter (\<lambda>(index, property).
                     \<exists>n<length ast'. bindsProperty (getName property) (ast' ! n))
             (enumerate 0 (getProperties tm)))"
    unfolding c by (simp add: containerRule_def properties_from_spec)
next
  assume "buildGrammarRules env this ast' tm prefix parts' = Inl e"
  then have "buildRules env this tm prefix 0 ast'
       (push_textRule parts' (containerRule env ast' tm prefix parts')) = Inl e"
    by (simp add: buildGrammarRules.simps)
  from buildRules_Inl [OF this]
  show "\<exists>index element this1 parts1. index < length ast' \<and> ast' ! index = Some element \<and>
         buildRule env this1 tm parts1 (prefix @ string_of_nat index) element = Inl e"
    by simp
qed

theorem buildGrammarRules_binds_first_witness:
  "(\<exists>this' parts'' ast''.
      buildGrammarRules example_collaborators new_ParserManager
        [Some (Chunk ''Force Majeure: ''),
         Some (IfBinding (example_token ''forceMajeure'') (example_token ''yes'')),
         Some (Chunk '' Amount: ''), Some (Binding (example_token ''amount'') None),
         Some (Chunk '' again ''), Some (Binding (example_token ''amount'') None), None]
        example_model ''rule'' example_parts = Inr (this', parts'', ast'') \<and>
      tr_prefix (textRules parts'' ! length (textRules example_parts)) = ''rule'' \<and>
      tr_class (textRules parts'' ! length (textRules example_parts)) = ''org.example.Clause'' \<and>
      tr_properties (textRules parts'' ! length (textRules example_parts)) =
        [''forceMajeure : rule1,'', ''amount : rule3,'']) \<and>
   (\<exists>e index element this1 parts1.
      buildGrammarRules example_collaborators new_ParserManager
        [Some (Chunk ''Pay in ''), Some (Binding (example_token ''currency'') None)]
        example_model ''rule'' example_parts = Inl e \<and>
      index < length [Some (Chunk ''Pay in ''), Some (Binding (example_token ''currency'') None)] \<and>
      [Some (Chunk ''Pay in ''), Some (Binding (example_token ''currency'') None)] ! index
        = Some element \<and>
      buildRule example_collaborators this1 example_model parts1
        (''rule'' @ string_of_nat index) element = Inl e)"
proof -
  let ?ast = "[Some (Chunk ''Force Majeure: ''),
         Some (IfBinding (example_token ''forceMajeure'') (example_token ''yes'')),
         Some (Chunk '' Amount: ''), Some (Binding (example_token ''amount'') None),
         Some (Chunk '' again ''), Some (Binding (example_token ''amount'') None), None]"
  let ?bad = "[Some (Chunk ''Pay in ''), Some (Binding (example_token ''currency'') None)]"
  have "\<exists>r. buildGrammarRules example_collaborators new_ParserManager ?ast example_model
      ''rule'' example_parts = Inr r"
    by (simp add: compiler_simps example_simps)
  then obtain this' parts'' ast'' where
    ok: "buildGrammarRules example_collaborators new_ParserManager ?ast example_model
      ''rule'' example_parts = Inr (this', parts'', ast'')"
    by auto
  from ok have props: "tr_properties (textRules parts'' ! length (textRules example_parts)) =
      [''forceMajeure : rule1,'', ''amount : rule3,'']"
    by (simp add: compiler_simps example_simps) auto
  from buildGrammarRules_binds_first [of example_collaborators new_ParserManager ?ast
      example_model "''rule''" example_parts this' parts'' ast''] ok
  have "tr_prefix (textRules parts'' ! length (textRules example_parts)) = ''rule'' \<and>
      tr_class (textRules parts'' ! length (textRules example_parts)) =
        getFullyQualifiedName example_model"
    by blast
  then have first: "tr_prefix (textRules parts'' ! length (textRules example_parts)) = ''rule'' \<and>
      tr_class (textRules parts'' ! length (textRules example_parts)) = ''org.example.Clause''"
    by (simp add: example_model_def)
  have "\<exists>e. buildGrammarRules example_collaborators new_ParserManager ?bad example_model
      ''rule'' example_parts = Inl e"
    by (simp add: compiler_simps example_simps)
  then obtain e where
    bad: "buildGrammarRules example_collaborators new_ParserManager ?bad example_model
      ''rule'' example_parts = Inl e"
    by auto
  from buildGrammarRules_binds_first [of example_collaborators new_ParserManager ?bad
      example_model "''rule''" example_parts _ _ _ e] bad
  have second: "\<exists>index element this1 parts1. index < length ?bad \<and> ?bad ! index = Some element \<and>
         buildRule example_collaborators this1 example_model parts1
           (''rule'' @ string_of_nat index) element = Inl e"
    by blast
  from ok props first have "\<exists>this' parts'' ast''.
      buildGrammarRules example_collaborators new_ParserManager ?ast
        example_model ''rule'' example_parts = Inr (this', parts'', ast'') \<and>
      tr_prefix (textRules parts'' ! length (textRules example_parts)) = ''rule'' \<and>
      tr_class (textRules parts'' ! length (textRules example_parts)) = ''org.example.Clause'' \<and>
      tr_properties (textRules parts'' ! length (textRules example_parts)) =
        [''forceMajeure : rule1,'', ''amount : rule3,'']"
    by blast
  moreover from bad second have "\<exists>e index element this1 parts1.
      buildGrammarRules example_collaborators new_ParserManager ?bad
        example_model ''rule'' example_parts = Inl e \<and>
      index < length ?bad \<and> ?bad ! index = Some element \<and>
      buildRule example_collaborators this1 example_model parts1
        (''rule'' @ string_of_nat index) element = Inl e"
    by blast
  ultimately show ?thesis by (rule conjI)
qed

section \<open>Conditional bindings in a level\<close>







end
